theory Spec2Isabelle
  imports Complex_Main
begin

section \<open>JavaScript values used by the services\<close>

text \<open>
  A thrown JavaScript exception is a value of type \<open>error\<close>: \<open>Error msg\<close> is
  \<^verbatim>\<open>new Error(msg)\<close>, \<open>TypeError msg\<close> is the engine's own exception for calling
  something that is not a function. A function that may throw returns \<open>error + 'a\<close>.
  Numbers that hold coordinates are reals; numbers that hold counts, part numbers and
  millisecond clock readings are naturals or integers. A \<^verbatim>\<open>Buffer\<close> is a list of
  bytes, and a byte is a \<open>char\<close>.
\<close>

datatype error = Error string | TypeError string

type_synonym buffer = "char list"

text \<open>\<^verbatim>\<open>n.toString()\<close> and \<^verbatim>\<open>`${n}`\<close> for an integer \<open>n\<close>: its decimal digits.\<close>

definition digit_char :: "nat \<Rightarrow> char" where
  "digit_char d = ''0123456789'' ! d"

function number_toString :: "nat \<Rightarrow> string" where
  "number_toString n =
     (if n < 10 then [digit_char n]
      else number_toString (n div 10) @ [digit_char (n mod 10)])"
  by pat_completeness auto
termination
  by (relation "measure id") auto

definition int_toString :: "int \<Rightarrow> string" where
  "int_toString i = (if i < 0 then CHR ''-'' # number_toString (nat (- i)) else number_toString (nat i))"

text \<open>\<^verbatim>\<open>s.padStart(n, '0')\<close>\<close>

definition padStart :: "string \<Rightarrow> nat \<Rightarrow> char \<Rightarrow> string" where
  "padStart s n c = replicate (n - length s) c @ s"

text \<open>\<^verbatim>\<open>s.substr(start, len)\<close> for non-negative arguments\<close>

definition substr :: "string \<Rightarrow> nat \<Rightarrow> nat \<Rightarrow> string" where
  "substr s start len = take len (drop start s)"

text \<open>\<^verbatim>\<open>buf.toString('base64')\<close>: RFC 4648 with padding.\<close>

definition b64_char :: "nat \<Rightarrow> char" where
  "b64_char n =
     ''ABCDEFGHIJKLMNOPQRSTUVWXYZabcdefghijklmnopqrstuvwxyz0123456789+/'' ! n"

fun toString_base64 :: "buffer \<Rightarrow> string" where
  "toString_base64 [] = []"
| "toString_base64 [a] =
     (let n = of_char a * 65536 :: nat
      in [b64_char (n div 262144), b64_char (n div 4096 mod 64), CHR ''='', CHR ''=''])"
| "toString_base64 [a, b] =
     (let n = of_char a * 65536 + of_char b * 256 :: nat
      in [b64_char (n div 262144), b64_char (n div 4096 mod 64), b64_char (n div 64 mod 64),
          CHR ''=''])"
| "toString_base64 (a # b # c # rest) =
     (let n = of_char a * 65536 + of_char b * 256 + of_char c :: nat
      in [b64_char (n div 262144), b64_char (n div 4096 mod 64), b64_char (n div 64 mod 64),
          b64_char (n mod 64)] @ toString_base64 rest)"

section \<open>Redaction service (src/services/redactionService.js)\<close>

subsection \<open>The session cache: node-cache with \<open>stdTTL: 3600\<close>\<close>

text \<open>
  \<^verbatim>\<open>const sessionCache = new NodeCache({ stdTTL: 3600 })\<close>. The cache keeps, for every
  key, the value and the expiry instant \<open>t\<close> in milliseconds. \<open>set\<close> stamps
  \<open>t = now + stdTTL * 1000\<close>; \<open>get\<close> returns the value unless \<open>t < now\<close>, in
  which case it deletes the key and returns \<^verbatim>\<open>undefined\<close>. \<open>get\<close> does not move
  \<open>t\<close>. The clock reading \<^verbatim>\<open>Date.now()\<close> is the argument \<open>now\<close>.
\<close>

record 'v cache_entry =
  ce_t :: nat
  ce_v :: 'v

type_synonym 'v node_cache = "string \<rightharpoonup> 'v cache_entry"

definition stdTTL :: nat where
  "stdTTL = 3600"

definition cache_check :: "'v cache_entry \<Rightarrow> nat \<Rightarrow> bool" where
  "cache_check e now = (\<not> (ce_t e \<noteq> 0 \<and> ce_t e < now))"

definition cache_get :: "'v node_cache \<Rightarrow> string \<Rightarrow> nat \<Rightarrow> 'v option \<times> 'v node_cache" where
  "cache_get c key now =
     (case c key of
        None \<Rightarrow> (None, c)
      | Some e \<Rightarrow> if cache_check e now then (Some (ce_v e), c) else (None, c(key := None)))"

definition cache_set :: "'v node_cache \<Rightarrow> string \<Rightarrow> 'v \<Rightarrow> nat \<Rightarrow> 'v node_cache" where
  "cache_set c key val now =
     c(key \<mapsto> \<lparr>ce_t = (if stdTTL = 0 then 0 else now + stdTTL * 1000), ce_v = val\<rparr>)"

definition cache_del :: "'v node_cache \<Rightarrow> string \<Rightarrow> 'v node_cache" where
  "cache_del c key = c(key := None)"

subsection \<open>Data\<close>

record redaction =
  r_pageNumber :: int
  r_x :: real
  r_y :: real
  r_width :: real
  r_height :: real

record dimensions =
  dim_width :: int
  dim_height :: int

record pageInfo =
  pi_pageNumber :: nat
  pi_dimensions :: dimensions
  pi_previewUrl :: string

record sessionData =
  sessionId :: string
  fileName :: string
  bucketName :: string
  platform :: "string option"
  pdfBuffer :: buffer
  pageCount :: nat
  pages :: "pageInfo list"
  createdAt :: nat
  redactions :: "redaction list"
  redactedAt :: "nat option"

record options =
  color :: "string option"

record applyResult =
  redactedPdfBase64 :: string
  originalSize :: nat
  redactedSize :: nat
  processingTime :: int

subsection \<open>The decoded document (pdf-lib)\<close>

text \<open>
  A decoded document is its list of pages; a page has a size and the drawing operations
  appended to it since it was decoded. \<^verbatim>\<open>page.drawRectangle\<close> appends one operation.
  Decoding, encoding, \<^verbatim>\<open>rgb\<close> and \<^verbatim>\<open>parseInt\<close> are the library's: they are taken
  as the fields of \<open>pdflib\<close>. \<open>parseInt\<close> returns \<open>None\<close> for \<^verbatim>\<open>NaN\<close>.
\<close>

record 'c draw_op =
  op_x :: real
  op_y :: real
  op_width :: real
  op_height :: real
  op_color :: 'c
  op_opacity :: real

record 'c pdfpage =
  pg_width :: real
  pg_height :: real
  pg_ops :: "'c draw_op list"

type_synonym 'c pdfdoc = "'c pdfpage list"

record 'c pdflib =
  PDFDocument_load :: "buffer \<Rightarrow> error + 'c pdfdoc"
  pdf_save :: "'c pdfdoc \<Rightarrow> error + buffer"
  rgb :: "real option \<Rightarrow> real option \<Rightarrow> real option \<Rightarrow> error + 'c"
  parseInt :: "string \<Rightarrow> nat \<Rightarrow> real option"

definition drawRectangle :: "'c pdfpage \<Rightarrow> 'c draw_op \<Rightarrow> 'c pdfpage" where
  "drawRectangle page opn = page\<lparr>pg_ops := pg_ops page @ [opn]\<rparr>"

subsection \<open>Helper methods\<close>

definition convertCoordinate :: "real \<Rightarrow> real \<Rightarrow> real" where
  "convertCoordinate val maxValue =
     (if val \<ge> 0 \<and> val \<le> 1 then val * maxValue else val)"

definition parseColor :: "'c pdflib \<Rightarrow> string \<Rightarrow> error + 'c" where
  "parseColor L colorString =
     (let hex = remove1 CHR ''#'' colorString;
          r = map_option (\<lambda>n. n / 255) (parseInt L (substr hex 0 2) 16);
          g = map_option (\<lambda>n. n / 255) (parseInt L (substr hex 2 2) 16);
          b = map_option (\<lambda>n. n / 255) (parseInt L (substr hex 4 2) 16)
      in rgb L r g b)"

record validation =
  isValid :: bool
  errors :: "string list"

definition validateRedaction :: "redaction \<Rightarrow> real \<Rightarrow> real \<Rightarrow> validation" where
  "validateRedaction rd pageWidth pageHeight =
     (let e1 = (if r_pageNumber rd = 0 \<or> r_pageNumber rd < 1 then [''Invalid page number''] else []);
          e2 = (if r_x rd < 0 \<or> r_x rd > pageWidth then [''X coordinate out of bounds''] else []);
          e3 = (if r_y rd < 0 \<or> r_y rd > pageHeight then [''Y coordinate out of bounds''] else []);
          e4 = (if r_width rd \<le> 0 \<or> r_x rd + r_width rd > pageWidth
                then [''Invalid width or extends beyond page''] else []);
          e5 = (if r_height rd \<le> 0 \<or> r_y rd + r_height rd > pageHeight
                then [''Invalid height or extends beyond page''] else []);
          errs = e1 @ e2 @ e3 @ e4 @ e5
      in \<lparr>isValid = (length errs = 0), errors = errs\<rparr>)"

subsection \<open>\<open>applyRedactionToPage\<close> and \<open>applyRedactions\<close>\<close>

text \<open>\<^verbatim>\<open>options.color || '#000000'\<close>\<close>

definition color_string :: "options \<Rightarrow> string" where
  "color_string opts =
     (case color opts of None \<Rightarrow> ''#000000'' | Some s \<Rightarrow> if s = [] then ''#000000'' else s)"

text \<open>The argument of \<^verbatim>\<open>page.drawRectangle\<close>: the resolved rectangle, with the
  vertical axis turned bottom-up.\<close>

definition drawn_rectangle :: "'c \<Rightarrow> 'c pdfpage \<Rightarrow> redaction \<Rightarrow> 'c draw_op" where
  "drawn_rectangle col page rd =
     (let pageWidth = pg_width page;
          pageHeight = pg_height page;
          x = convertCoordinate (r_x rd) pageWidth;
          y = convertCoordinate (r_y rd) pageHeight;
          width = convertCoordinate (r_width rd) pageWidth;
          height = convertCoordinate (r_height rd) pageHeight
      in \<lparr>op_x = x, op_y = pageHeight - y - height, op_width = width, op_height = height,
          op_color = col, op_opacity = 1\<rparr>)"

definition applyRedactionToPage ::
  "'c pdflib \<Rightarrow> 'c pdfdoc \<Rightarrow> redaction \<Rightarrow> options \<Rightarrow> error + 'c pdfdoc" where
  "applyRedactionToPage L pdfDoc rd opts =
     (let pageIndex = r_pageNumber rd - 1
      in if pageIndex < 0 \<or> pageIndex \<ge> int (length pdfDoc)
         then Inl (Error (''Page '' @ int_toString (r_pageNumber rd) @ '' not found''))
         else
           (let page = pdfDoc ! nat pageIndex
            in case parseColor L (color_string opts) of
                 Inl e \<Rightarrow> Inl e
               | Inr col \<Rightarrow>
                   Inr (pdfDoc[nat pageIndex :=
                          drawRectangle page (drawn_rectangle col page rd)])))"

text \<open>The loop \<^verbatim>\<open>for (const redaction of redactions)\<close>; the first throw ends it.\<close>

fun applyEach ::
  "'c pdflib \<Rightarrow> 'c pdfdoc \<Rightarrow> redaction list \<Rightarrow> options \<Rightarrow> error + 'c pdfdoc" where
  "applyEach L pdfDoc [] opts = Inr pdfDoc"
| "applyEach L pdfDoc (rd # rest) opts =
     (case applyRedactionToPage L pdfDoc rd opts of
        Inl e \<Rightarrow> Inl e
      | Inr pdfDoc' \<Rightarrow> applyEach L pdfDoc' rest opts)"

text \<open>
  \<open>applyRedactions\<close> reads the clock three times: \<open>t0\<close> on entry (\<open>startTime\<close> and
  the cache lookup), \<open>t1\<close> when it stamps \<open>redactedAt\<close> and stores the session, and
  \<open>t2\<close> for \<open>processingTime\<close>. It returns the result, or the thrown error, with the
  cache as it leaves it.
\<close>

definition applyRedactions ::
  "'c pdflib \<Rightarrow> string \<Rightarrow> redaction list \<Rightarrow> options \<Rightarrow> nat \<Rightarrow> nat \<Rightarrow> nat \<Rightarrow>
   sessionData node_cache \<Rightarrow> (error + applyResult) \<times> sessionData node_cache" where
  "applyRedactions L sid reds opts t0 t1 t2 cache =
     (case cache_get cache sid t0 of
        (None, cache') \<Rightarrow> (Inl (Error ''Redaction session not found or expired''), cache')
      | (Some sd, cache') \<Rightarrow>
          (case PDFDocument_load L (pdfBuffer sd) of
             Inl e \<Rightarrow> (Inl e, cache')
           | Inr pdfDoc \<Rightarrow>
               (case applyEach L pdfDoc reds opts of
                  Inl e \<Rightarrow> (Inl e, cache')
                | Inr pdfDoc' \<Rightarrow>
                    (case pdf_save L pdfDoc' of
                       Inl e \<Rightarrow> (Inl e, cache')
                     | Inr redactedPdfBytes \<Rightarrow>
                         (let sd' = sd\<lparr>redactions := reds, redactedAt := Some t1\<rparr>;
                              cache'' = cache_set cache' sid sd' t1
                          in (Inr \<lparr>redactedPdfBase64 = toString_base64 redactedPdfBytes,
                                   originalSize = length (pdfBuffer sd'),
                                   redactedSize = length redactedPdfBytes,
                                   processingTime = int t2 - int t0\<rparr>,
                              cache''))))))"

subsection \<open>\<open>applyRedactions\<close> between its awaits\<close>

text \<open>
  \<open>applyRedactions\<close> is an \<^verbatim>\<open>async\<close> function: it runs until an \<^verbatim>\<open>await\<close>, gives
  the event loop back, and is resumed later; other calls run in between. Its awaits are
  \<^verbatim>\<open>await PDFDocument.load\<close>, one \<^verbatim>\<open>await this.applyRedactionToPage\<close> for each
  rectangle, and \<^verbatim>\<open>await pdfDoc.save()\<close>. A call in flight is in one of these phases:
  \<open>Start\<close>, not yet entered; \<open>Drawing sd doc rest\<close>, holding the session \<open>sd\<close> it
  read from the cache, its own decoded document \<open>doc\<close> and the rectangles still to
  draw; \<open>Encoded sd bytes\<close>, holding the encoded bytes, about to store the session;
  \<open>Finished r\<close>, returned or thrown. The cache hands out and takes in copies
  (\<^verbatim>\<open>useClones\<close> is on by default), so \<open>sd\<close> belongs to the call. Only the first and
  the last step touch the cache.
\<close>

record apply_call =
  ac_sid :: string
  ac_reds :: "redaction list"
  ac_opts :: options
  ac_t0 :: nat
  ac_t1 :: nat
  ac_t2 :: nat

datatype 'c phase =
    Start
  | Drawing sessionData "'c pdfdoc" "redaction list"
  | Encoded sessionData buffer
  | Finished "error + applyResult"

fun apply_step ::
  "'c pdflib \<Rightarrow> apply_call \<Rightarrow> 'c phase \<Rightarrow> sessionData node_cache \<Rightarrow>
   'c phase \<times> sessionData node_cache" where
  "apply_step L c Start cache =
     (case cache_get cache (ac_sid c) (ac_t0 c) of
        (None, cache') \<Rightarrow>
          (Finished (Inl (Error ''Redaction session not found or expired'')), cache')
      | (Some sd, cache') \<Rightarrow>
          (case PDFDocument_load L (pdfBuffer sd) of
             Inl e \<Rightarrow> (Finished (Inl e), cache')
           | Inr pdfDoc \<Rightarrow> (Drawing sd pdfDoc (ac_reds c), cache')))"
| "apply_step L c (Drawing sd pdfDoc (rd # rest)) cache =
     (case applyRedactionToPage L pdfDoc rd (ac_opts c) of
        Inl e \<Rightarrow> (Finished (Inl e), cache)
      | Inr pdfDoc' \<Rightarrow> (Drawing sd pdfDoc' rest, cache))"
| "apply_step L c (Drawing sd pdfDoc []) cache =
     (case pdf_save L pdfDoc of
        Inl e \<Rightarrow> (Finished (Inl e), cache)
      | Inr redactedPdfBytes \<Rightarrow> (Encoded sd redactedPdfBytes, cache))"
| "apply_step L c (Encoded sd redactedPdfBytes) cache =
     (let sd' = sd\<lparr>redactions := ac_reds c, redactedAt := Some (ac_t1 c)\<rparr>
      in (Finished (Inr \<lparr>redactedPdfBase64 = toString_base64 redactedPdfBytes,
                          originalSize = length (pdfBuffer sd'),
                          redactedSize = length redactedPdfBytes,
                          processingTime = int (ac_t2 c) - int (ac_t0 c)\<rparr>),
          cache_set cache (ac_sid c) sd' (ac_t1 c)))"
| "apply_step L c (Finished r) cache = (Finished r, cache)"

text \<open>
  Two calls \<open>a\<close> and \<open>b\<close> in flight over one cache. A schedule says, step by step,
  which of them the event loop resumes: \<open>False\<close> for \<open>a\<close>, \<open>True\<close> for \<open>b\<close>.
  Nothing in the code makes a call wait for the other or refuses it: every resumption
  takes the step of the chosen call.
\<close>

fun interleave ::
  "'c pdflib \<Rightarrow> apply_call \<Rightarrow> apply_call \<Rightarrow> bool list \<Rightarrow>
   'c phase \<times> 'c phase \<times> sessionData node_cache \<Rightarrow>
   'c phase \<times> 'c phase \<times> sessionData node_cache" where
  "interleave L a b [] s = s"
| "interleave L a b (second # sched) (pa, pb, cache) =
     (if second
      then (case apply_step L b pb cache of
              (pb', cache') \<Rightarrow> interleave L a b sched (pa, pb', cache'))
      else (case apply_step L a pa cache of
              (pa', cache') \<Rightarrow> interleave L a b sched (pa', pb, cache')))"

text \<open>
  What a call in flight holds, relative to the stored document bytes \<open>B\<close>: a session
  whose bytes are \<open>B\<close>, and the decoding of \<open>B\<close> on which exactly the rectangles of
  this call that are no longer waiting have been drawn; once encoded, the encoding of
  the decoding of \<open>B\<close> with all rectangles of this call drawn; once returned, a result
  whose document is that encoding. \<open>cache_holds\<close> says that the session stored under
  the key, if any, has the bytes \<open>B\<close>.
\<close>

fun own_copy :: "'c pdflib \<Rightarrow> buffer \<Rightarrow> apply_call \<Rightarrow> 'c phase \<Rightarrow> bool" where
  "own_copy L B c Start = True"
| "own_copy L B c (Drawing sd pdfDoc rest) =
     (pdfBuffer sd = B \<and> length rest \<le> length (ac_reds c) \<and>
      drop (length (ac_reds c) - length rest) (ac_reds c) = rest \<and>
      (case PDFDocument_load L B of
         Inl e \<Rightarrow> False
       | Inr doc0 \<Rightarrow>
           applyEach L doc0 (take (length (ac_reds c) - length rest) (ac_reds c)) (ac_opts c)
             = Inr pdfDoc))"
| "own_copy L B c (Encoded sd bytes) =
     (pdfBuffer sd = B \<and>
      (case PDFDocument_load L B of
         Inl e \<Rightarrow> False
       | Inr doc0 \<Rightarrow>
           (case applyEach L doc0 (ac_reds c) (ac_opts c) of
              Inl e \<Rightarrow> False
            | Inr doc' \<Rightarrow> pdf_save L doc' = Inr bytes)))"
| "own_copy L B c (Finished (Inl e)) = True"
| "own_copy L B c (Finished (Inr res)) =
     (case PDFDocument_load L B of
        Inl e \<Rightarrow> False
      | Inr doc0 \<Rightarrow>
          (case applyEach L doc0 (ac_reds c) (ac_opts c) of
             Inl e \<Rightarrow> False
           | Inr doc' \<Rightarrow>
               (case pdf_save L doc' of
                  Inl e \<Rightarrow> False
                | Inr bytes \<Rightarrow> redactedPdfBase64 res = toString_base64 bytes)))"

definition cache_holds :: "string \<Rightarrow> buffer \<Rightarrow> sessionData node_cache \<Rightarrow> bool" where
  "cache_holds sid B cache =
     (case cache sid of None \<Rightarrow> True | Some e \<Rightarrow> pdfBuffer (ce_v e) = B)"

subsection \<open>\<open>preparePDFForRedaction\<close>, \<open>getSessionDetails\<close>, \<open>cleanupSession\<close>\<close>

text \<open>
  \<^verbatim>\<open>Math.random().toString(36).substr(2, 9)\<close> is the argument \<open>rnd\<close>; the download
  through the file service is the argument \<open>download\<close>, whose result \<open>None\<close> is a
  missing \<^verbatim>\<open>fileData\<close> or a missing \<^verbatim>\<open>fileData.buffer\<close>.
\<close>

definition generateSessionId :: "nat \<Rightarrow> string \<Rightarrow> string" where
  "generateSessionId now rnd = ''redaction_'' @ number_toString now @ ''_'' @ rnd"

definition getPageDimensions :: "'c pdfdoc \<Rightarrow> nat \<Rightarrow> dimensions" where
  "getPageDimensions pdfDoc pageIndex =
     (if pageIndex < length pdfDoc
      then \<lparr>dim_width = round (pg_width (pdfDoc ! pageIndex)),
            dim_height = round (pg_height (pdfDoc ! pageIndex))\<rparr>
      else \<lparr>dim_width = 612, dim_height = 792\<rparr>)"

record prepareResult =
  pr_sessionId :: string
  pr_pageCount :: nat
  pr_pages :: "pageInfo list"
  pr_originalSize :: nat
  pr_processingTime :: int

definition preparePDFForRedaction ::
  "'c pdflib \<Rightarrow> (string \<Rightarrow> string \<Rightarrow> error + buffer option) \<Rightarrow> string option \<Rightarrow>
   string \<Rightarrow> string \<Rightarrow> string \<Rightarrow> nat \<Rightarrow> nat \<Rightarrow> nat \<Rightarrow>
   sessionData node_cache \<Rightarrow> (error + prepareResult) \<times> sessionData node_cache" where
  "preparePDFForRedaction L download plat bucket file rnd t0 t1 t2 cache =
     (let sid = generateSessionId t0 rnd
      in case download bucket file of
           Inl e \<Rightarrow> (Inl e, cache)
         | Inr None \<Rightarrow> (Inl (Error ''Failed to download PDF file''), cache)
         | Inr (Some buf) \<Rightarrow>
             (case PDFDocument_load L buf of
                Inl e \<Rightarrow> (Inl e, cache)
              | Inr pdfDoc \<Rightarrow>
                  (let cnt = length pdfDoc;
                       pgs = map (\<lambda>i. \<lparr>pi_pageNumber = i + 1,
                                        pi_dimensions = getPageDimensions pdfDoc i,
                                        pi_previewUrl = ''/api/redaction/session/'' @ sid @ ''/page/''
                                           @ number_toString (i + 1) @ ''/preview''\<rparr>) [0..<cnt];
                       sd = \<lparr>sessionId = sid, fileName = file, bucketName = bucket,
                             platform = plat, pdfBuffer = buf, pageCount = cnt, pages = pgs,
                             createdAt = t1, redactions = [], redactedAt = None\<rparr>
                   in (Inr \<lparr>pr_sessionId = sid, pr_pageCount = cnt, pr_pages = pgs,
                            pr_originalSize = length buf,
                            pr_processingTime = int t2 - int t0\<rparr>,
                       cache_set cache sid sd t1))))"

record sessionDetails =
  det_fileName :: string
  det_bucketName :: string
  det_platform :: "string option"
  det_pageCount :: nat
  det_createdAt :: nat
  det_redactionCount :: nat
  det_redactedAt :: "nat option"

definition getSessionDetails ::
  "string \<Rightarrow> nat \<Rightarrow> sessionData node_cache \<Rightarrow> (error + sessionDetails) \<times> sessionData node_cache" where
  "getSessionDetails sid now cache =
     (case cache_get cache sid now of
        (None, cache') \<Rightarrow> (Inl (Error ''Redaction session not found or expired''), cache')
      | (Some sd, cache') \<Rightarrow>
          (Inr \<lparr>det_fileName = fileName sd, det_bucketName = bucketName sd,
                det_platform = platform sd, det_pageCount = pageCount sd,
                det_createdAt = createdAt sd, det_redactionCount = length (redactions sd),
                det_redactedAt = redactedAt sd\<rparr>, cache'))"

definition cleanupSession :: "string \<Rightarrow> nat \<Rightarrow> sessionData node_cache \<Rightarrow> sessionData node_cache" where
  "cleanupSession sid now cache =
     (case cache_get cache sid now of
        (None, cache') \<Rightarrow> cache'
      | (Some sd, cache') \<Rightarrow> cache_del cache' sid)"

section \<open>File service (class \<open>FileService\<close>)\<close>

subsection \<open>The providers' SDKs\<close>

text \<open>
  Every call that reaches a provider is appended to a log, with its arguments. What the
  provider answers is not the file service's code: the answers are the fields of
  \<open>provider\<close>, each a function of the log up to and including the call it answers.
  \<open>gcpStorage\<close>, \<open>awsS3Client\<close> and \<open>azureBlob\<close> say whether the cloud service
  manager holds a client (\<^verbatim>\<open>getGCPStorage\<close>, \<^verbatim>\<open>getAWSS3\<close> and \<^verbatim>\<open>getAzureBlob\<close>
  throw when it does not). \<open>mime_lookup\<close> is \<^verbatim>\<open>mime.lookup\<close>, \<open>None\<close> for
  \<^verbatim>\<open>false\<close>.
\<close>

datatype sdk_call =
    GCS_getFiles string string nat
  | GCS_getMetadata string string
  | S3_createMultipartUpload string string "string option"
  | S3_uploadPart string string string int buffer
  | S3_completeMultipartUpload string string string "(string \<times> int) list"
  | Azure_stageBlock string string string buffer nat
  | Azure_commitBlockList string string "string list"

type_synonym sdk_log = "sdk_call list"

record metadata =
  md_size :: "nat option"
  md_updated :: "string option"
  md_timeCreated :: "string option"
  md_contentType :: "string option"
  md_etag :: "string option"
  md_md5Hash :: "string option"

record provider =
  gcpStorage :: bool
  awsS3Client :: bool
  azureBlob :: bool
  mime_lookup :: "string \<Rightarrow> string option"
  getFiles_reply :: "sdk_log \<Rightarrow> error + string list"
  getMetadata_reply :: "sdk_log \<Rightarrow> error + metadata"
  createMultipartUpload_reply :: "sdk_log \<Rightarrow> error + string"
  uploadPart_reply :: "sdk_log \<Rightarrow> error + string"
  completeMultipartUpload_reply :: "sdk_log \<Rightarrow> error + string"
  stageBlock_reply :: "sdk_log \<Rightarrow> error + unit"
  commitBlockList_reply :: "sdk_log \<Rightarrow> error + unit"

fun message :: "error \<Rightarrow> string" where
  "message (Error m) = m"
| "message (TypeError m) = m"

definition getGCPStorage :: "provider \<Rightarrow> error + unit" where
  "getGCPStorage P =
     (if \<not> gcpStorage P
      then Inl (Error ''GCP Storage not initialized. Please configure GCP credentials.'')
      else Inr ())"

definition getAWSS3 :: "provider \<Rightarrow> error + unit" where
  "getAWSS3 P =
     (if \<not> awsS3Client P
      then Inl (Error ''AWS S3 not initialized. Please configure AWS credentials.'')
      else Inr ())"

definition getAzureBlob :: "provider \<Rightarrow> error + unit" where
  "getAzureBlob P =
     (if \<not> azureBlob P
      then Inl (Error ''Azure Blob Storage not initialized. Please configure Azure credentials.'')
      else Inr ())"

subsection \<open>Members of the class\<close>

text \<open>
  The class body declares its helper methods from \<open>formatFileSize\<close> to
  \<open>getMimeType\<close> with \<^verbatim>\<open>static\<close>: they are properties of the constructor
  \<open>FileService\<close>, not of its instances. Inside an instance method,
  \<^verbatim>\<open>this.name(...)\<close> finds only the instance methods; for any other name the
  property is \<^verbatim>\<open>undefined\<close> and the call throws a \<open>TypeError\<close>.
\<close>

definition instance_methods :: "string list" where
  "instance_methods =
     [''listFiles'', ''uploadFile'', ''deleteFile'', ''downloadFile'', ''generateShareLink'',
      ''initiateMultipartUpload'', ''uploadPart'', ''completeMultipartUpload'',
      ''listGCPFiles'', ''uploadGCPFile'', ''deleteGCPFile'', ''downloadGCPFile'',
      ''generateGCPShareLink'', ''initiateGCPResumableUpload'', ''uploadGCPChunk'',
      ''completeGCPResumableUpload'',
      ''listAWSFiles'', ''uploadAWSFile'', ''deleteAWSFile'', ''downloadAWSFile'',
      ''generateAWSShareLink'', ''initiateAWSMultipartUpload'', ''uploadAWSPart'',
      ''completeAWSMultipartUpload'',
      ''listAzureFiles'', ''uploadAzureFile'', ''deleteAzureFile'', ''downloadAzureFile'',
      ''generateAzureShareLink'', ''initiateAzureBlockUpload'', ''uploadAzureBlock'',
      ''completeAzureBlockUpload'', ''streamToBuffer'']"

definition static_methods :: "string list" where
  "static_methods =
     [''formatFileSize'', ''getFileExtension'', ''isImageFile'', ''isPDFFile'', ''isVideoFile'',
      ''isOCRCompatible'', ''validateFileName'', ''getMimeType'']"

text \<open>\<^verbatim>\<open>static getMimeType(fileName)\<close>\<close>

definition getMimeType :: "provider \<Rightarrow> string \<Rightarrow> string" where
  "getMimeType P name =
     (case mime_lookup P name of
        None \<Rightarrow> ''application/octet-stream''
      | Some ty \<Rightarrow> if ty = [] then ''application/octet-stream'' else ty)"

text \<open>\<^verbatim>\<open>this.getMimeType(name)\<close>, evaluated in an instance method\<close>

definition this_getMimeType :: "provider \<Rightarrow> string \<Rightarrow> error + string" where
  "this_getMimeType P name =
     (if ''getMimeType'' \<in> set instance_methods then Inr (getMimeType P name)
      else Inl (TypeError ''this.getMimeType is not a function''))"

subsection \<open>\<open>listGCPFiles\<close>\<close>

datatype js_date = Date_of string | Date_invalid | Date_at nat

record fileEntry =
  fe_fileName :: string
  fe_size :: nat
  fe_lastModified :: js_date
  fe_contentType :: string
  fe_etag :: "string option"
  fe_md5Hash :: "string option"

definition truthy :: "string option \<Rightarrow> bool" where
  "truthy s = (case s of None \<Rightarrow> False | Some v \<Rightarrow> v \<noteq> [])"

text \<open>The body of the inner \<^verbatim>\<open>try\<close>: fetch the metadata and build the entry.\<close>

definition entry_of_metadata :: "provider \<Rightarrow> string \<Rightarrow> metadata \<Rightarrow> error + fileEntry" where
  "entry_of_metadata P name md =
     (case (if truthy (md_contentType md) then Inr (the (md_contentType md))
            else this_getMimeType P name) of
        Inl e \<Rightarrow> Inl e
      | Inr ct \<Rightarrow>
          Inr \<lparr>fe_fileName = name,
               fe_size = (case md_size md of None \<Rightarrow> 0 | Some n \<Rightarrow> n),
               fe_lastModified =
                 (if truthy (md_updated md) then Date_of (the (md_updated md))
                  else case md_timeCreated md of None \<Rightarrow> Date_invalid | Some d \<Rightarrow> Date_of d),
               fe_contentType = ct, fe_etag = md_etag md, fe_md5Hash = md_md5Hash md\<rparr>)"

text \<open>The body of the inner \<^verbatim>\<open>catch (metadataError)\<close>: the defaulted entry.\<close>

definition default_entry :: "provider \<Rightarrow> string \<Rightarrow> nat \<Rightarrow> error + fileEntry" where
  "default_entry P name now =
     (case this_getMimeType P name of
        Inl e \<Rightarrow> Inl e
      | Inr ct \<Rightarrow>
          Inr \<lparr>fe_fileName = name, fe_size = 0, fe_lastModified = Date_at now,
               fe_contentType = ct, fe_etag = Some [], fe_md5Hash = Some []\<rparr>)"

text \<open>The loop \<^verbatim>\<open>for (const file of files)\<close>; an exception that leaves the inner
  \<^verbatim>\<open>catch\<close> ends it.\<close>

fun listGCP_loop ::
  "provider \<Rightarrow> string \<Rightarrow> nat \<Rightarrow> string list \<Rightarrow> fileEntry list \<Rightarrow> sdk_log \<Rightarrow>
   (error + fileEntry list) \<times> sdk_log" where
  "listGCP_loop P bucket now [] fileList w = (Inr fileList, w)"
| "listGCP_loop P bucket now (name # rest) fileList w =
     (let w1 = w @ [GCS_getMetadata bucket name];
          tried = (case getMetadata_reply P w1 of
                     Inl e \<Rightarrow> Inl e
                   | Inr md \<Rightarrow> entry_of_metadata P name md)
      in case tried of
           Inr entry \<Rightarrow> listGCP_loop P bucket now rest (fileList @ [entry]) w1
         | Inl metadataError \<Rightarrow>
             (case default_entry P name now of
                Inl e \<Rightarrow> (Inl e, w1)
              | Inr entry \<Rightarrow> listGCP_loop P bucket now rest (fileList @ [entry]) w1))"

definition listGCPFiles ::
  "provider \<Rightarrow> string \<Rightarrow> string \<Rightarrow> nat \<Rightarrow> sdk_log \<Rightarrow> (error + fileEntry list) \<times> sdk_log" where
  "listGCPFiles P bucket prefix now w =
     (let wrap = (\<lambda>e. Inl (Error (''Failed to list files: '' @ message e)))
      in case getGCPStorage P of
           Inl e \<Rightarrow> (wrap e, w)
         | Inr _ \<Rightarrow>
             (let w1 = w @ [GCS_getFiles bucket prefix 1000]
              in case getFiles_reply P w1 of
                   Inl e \<Rightarrow> (wrap e, w1)
                 | Inr files \<Rightarrow>
                     (case listGCP_loop P bucket now files [] w1 of
                        (Inl e, w2) \<Rightarrow> (wrap e, w2)
                      | (Inr fileList, w2) \<Rightarrow> (Inr fileList, w2))))"

subsection \<open>The multipart protocol\<close>

record part =
  partNumber :: int
  etag :: string

record completeResult =
  cr_success :: bool
  cr_uploadId :: "string option"
  cr_location :: "string option"
  cr_fileName :: "string option"

text \<open>Provider A (GCP). \<open>rnd\<close> is \<^verbatim>\<open>Math.random().toString(36).substr(2, 9)\<close>.\<close>

definition initiateGCPResumableUpload ::
  "provider \<Rightarrow> string \<Rightarrow> string \<Rightarrow> string option \<Rightarrow> nat \<Rightarrow> string \<Rightarrow> sdk_log \<Rightarrow>
   (error + string) \<times> sdk_log" where
  "initiateGCPResumableUpload P bucket file contentType now rnd w =
     (case getGCPStorage P of
        Inl e \<Rightarrow> (Inl e, w)
      | Inr _ \<Rightarrow> (Inr (''gcp_'' @ number_toString now @ ''_'' @ rnd), w))"

definition uploadGCPChunk ::
  "provider \<Rightarrow> string \<Rightarrow> string \<Rightarrow> string \<Rightarrow> int \<Rightarrow> buffer \<Rightarrow> sdk_log \<Rightarrow>
   (error + string) \<times> sdk_log" where
  "uploadGCPChunk P bucket file uploadId pn buf w =
     (Inr (''gcp_chunk_'' @ int_toString pn @ ''_'' @ uploadId), w)"

definition completeGCPResumableUpload ::
  "provider \<Rightarrow> string \<Rightarrow> string \<Rightarrow> string \<Rightarrow> sdk_log \<Rightarrow> (error + completeResult) \<times> sdk_log" where
  "completeGCPResumableUpload P bucket file uploadId w =
     (Inr \<lparr>cr_success = True, cr_uploadId = Some uploadId, cr_location = None,
           cr_fileName = None\<rparr>, w)"

text \<open>
  Provider B (AWS). The client that the cloud service manager holds is
  \<^verbatim>\<open>new S3Client(awsConfig)\<close> of the SDK's version 3, whose operations are sent as
  commands through \<^verbatim>\<open>send\<close>. It has no method named after an operation, so
  \<^verbatim>\<open>s3.createMultipartUpload\<close>, \<^verbatim>\<open>s3.uploadPart\<close> and
  \<^verbatim>\<open>s3.completeMultipartUpload\<close> are \<^verbatim>\<open>undefined\<close> and calling them throws a
  \<open>TypeError\<close> before any request is made.
\<close>

definition S3Client_methods :: "string list" where
  "S3Client_methods = [''send'', ''destroy'']"

definition s3_method :: "string \<Rightarrow> error + unit" where
  "s3_method name =
     (if name \<in> set S3Client_methods then Inr ()
      else Inl (TypeError (''s3.'' @ name @ '' is not a function'')))"

definition initiateAWSMultipartUpload ::
  "provider \<Rightarrow> string \<Rightarrow> string \<Rightarrow> string option \<Rightarrow> sdk_log \<Rightarrow> (error + string) \<times> sdk_log" where
  "initiateAWSMultipartUpload P bucket file contentType w =
     (case getAWSS3 P of
        Inl e \<Rightarrow> (Inl e, w)
      | Inr _ \<Rightarrow>
          (case s3_method ''createMultipartUpload'' of
             Inl e \<Rightarrow> (Inl e, w)
           | Inr _ \<Rightarrow>
               (let w1 = w @ [S3_createMultipartUpload bucket file contentType]
                in (createMultipartUpload_reply P w1, w1))))"

definition uploadAWSPart ::
  "provider \<Rightarrow> string \<Rightarrow> string \<Rightarrow> string \<Rightarrow> int \<Rightarrow> buffer \<Rightarrow> sdk_log \<Rightarrow>
   (error + string) \<times> sdk_log" where
  "uploadAWSPart P bucket file uploadId pn buf w =
     (case getAWSS3 P of
        Inl e \<Rightarrow> (Inl e, w)
      | Inr _ \<Rightarrow>
          (case s3_method ''uploadPart'' of
             Inl e \<Rightarrow> (Inl e, w)
           | Inr _ \<Rightarrow>
               (let w1 = w @ [S3_uploadPart bucket file uploadId pn buf]
                in (uploadPart_reply P w1, w1))))"

definition completeAWSMultipartUpload ::
  "provider \<Rightarrow> string \<Rightarrow> string \<Rightarrow> string \<Rightarrow> part list \<Rightarrow> sdk_log \<Rightarrow>
   (error + completeResult) \<times> sdk_log" where
  "completeAWSMultipartUpload P bucket file uploadId parts w =
     (case getAWSS3 P of
        Inl e \<Rightarrow> (Inl e, w)
      | Inr _ \<Rightarrow>
          (case s3_method ''completeMultipartUpload'' of
             Inl e \<Rightarrow> (Inl e, w)
           | Inr _ \<Rightarrow>
               (let w1 = w @ [S3_completeMultipartUpload bucket file uploadId
                                (map (\<lambda>p. (etag p, partNumber p)) parts)]
                in case completeMultipartUpload_reply P w1 of
                     Inl e \<Rightarrow> (Inl e, w1)
                   | Inr loc \<Rightarrow>
                       (Inr \<lparr>cr_success = True, cr_uploadId = None, cr_location = Some loc,
                             cr_fileName = None\<rparr>, w1))))"

text \<open>Provider C (Azure)\<close>

definition initiateAzureBlockUpload ::
  "provider \<Rightarrow> string \<Rightarrow> string \<Rightarrow> string option \<Rightarrow> nat \<Rightarrow> string \<Rightarrow> sdk_log \<Rightarrow>
   (error + string) \<times> sdk_log" where
  "initiateAzureBlockUpload P bucket file contentType now rnd w =
     (Inr (''azure_'' @ number_toString now @ ''_'' @ rnd), w)"

definition blockId_of :: "int \<Rightarrow> string" where
  "blockId_of pn = toString_base64 (padStart (int_toString pn) 6 CHR ''0'')"

definition uploadAzureBlock ::
  "provider \<Rightarrow> string \<Rightarrow> string \<Rightarrow> string \<Rightarrow> int \<Rightarrow> buffer \<Rightarrow> sdk_log \<Rightarrow>
   (error + string) \<times> sdk_log" where
  "uploadAzureBlock P bucket file uploadId pn buf w =
     (case getAzureBlob P of
        Inl e \<Rightarrow> (Inl e, w)
      | Inr _ \<Rightarrow>
          (let blockId = blockId_of pn;
               w1 = w @ [Azure_stageBlock bucket file blockId buf (length buf)]
           in case stageBlock_reply P w1 of
                Inl e \<Rightarrow> (Inl e, w1)
              | Inr _ \<Rightarrow> (Inr blockId, w1)))"

definition completeAzureBlockUpload ::
  "provider \<Rightarrow> string \<Rightarrow> string \<Rightarrow> string \<Rightarrow> part list \<Rightarrow> sdk_log \<Rightarrow>
   (error + completeResult) \<times> sdk_log" where
  "completeAzureBlockUpload P bucket file uploadId parts w =
     (case getAzureBlob P of
        Inl e \<Rightarrow> (Inl e, w)
      | Inr _ \<Rightarrow>
          (let blockIds = map etag parts;
               w1 = w @ [Azure_commitBlockList bucket file blockIds]
           in case commitBlockList_reply P w1 of
                Inl e \<Rightarrow> (Inl e, w1)
              | Inr _ \<Rightarrow>
                  (Inr \<lparr>cr_success = True, cr_uploadId = None, cr_location = None,
                        cr_fileName = Some file\<rparr>, w1)))"

text \<open>
  The dispatchers switch on \<^verbatim>\<open>this.platform\<close>, the platform name in lower case
  (\<open>plat\<close>); their \<^verbatim>\<open>catch\<close> logs the error and throws it again.
\<close>

definition initiateMultipartUpload ::
  "provider \<Rightarrow> string \<Rightarrow> string \<Rightarrow> string \<Rightarrow> string option \<Rightarrow> nat \<Rightarrow> string \<Rightarrow> sdk_log \<Rightarrow>
   (error + string) \<times> sdk_log" where
  "initiateMultipartUpload P plat bucket file contentType now rnd w =
     (if plat = ''gcp'' then initiateGCPResumableUpload P bucket file contentType now rnd w
      else if plat = ''aws'' then initiateAWSMultipartUpload P bucket file contentType w
      else if plat = ''azure'' then initiateAzureBlockUpload P bucket file contentType now rnd w
      else (Inl (Error (''Unsupported platform: '' @ plat)), w))"

definition uploadPart ::
  "provider \<Rightarrow> string \<Rightarrow> string \<Rightarrow> string \<Rightarrow> string \<Rightarrow> int \<Rightarrow> buffer \<Rightarrow> sdk_log \<Rightarrow>
   (error + string) \<times> sdk_log" where
  "uploadPart P plat bucket file uploadId pn buf w =
     (if plat = ''gcp'' then uploadGCPChunk P bucket file uploadId pn buf w
      else if plat = ''aws'' then uploadAWSPart P bucket file uploadId pn buf w
      else if plat = ''azure'' then uploadAzureBlock P bucket file uploadId pn buf w
      else (Inl (Error (''Unsupported platform: '' @ plat)), w))"

definition completeMultipartUpload ::
  "provider \<Rightarrow> string \<Rightarrow> string \<Rightarrow> string \<Rightarrow> string \<Rightarrow> part list \<Rightarrow> sdk_log \<Rightarrow>
   (error + completeResult) \<times> sdk_log" where
  "completeMultipartUpload P plat bucket file uploadId parts w =
     (if plat = ''gcp'' then completeGCPResumableUpload P bucket file uploadId w
      else if plat = ''aws'' then completeAWSMultipartUpload P bucket file uploadId parts w
      else if plat = ''azure'' then completeAzureBlockUpload P bucket file uploadId parts w
      else (Inl (Error (''Unsupported platform: '' @ plat)), w))"

section \<open>Example environments\<close>

text \<open>
  Concrete libraries and providers, on which the theorems below are instantiated. The
  example decoder reads every non-empty buffer as one page of 600 by 800 points and its
  encoder writes one byte for every rectangle drawn. The example cache is the cache
  after \<open>preparePDFForRedaction\<close> at time 0, holding one session. The example calls
  \<open>a\<close> and \<open>b\<close> apply one rectangle each to that session: \<open>a\<close> enters at 1000
  and stores at 5000, \<open>b\<close> enters at 2000 and stores at 4000. The example provider holds all three
  clients and acknowledges every call, except that the metadata of \<open>a.pdf\<close> in the
  bucket \<open>docs\<close> cannot be fetched.
\<close>

definition example_pdflib :: "unit pdflib" where
  "example_pdflib =
     \<lparr>PDFDocument_load =
        (\<lambda>buf. if buf = [] then Inl (Error ''Failed to parse PDF document'')
               else Inr [\<lparr>pg_width = 600, pg_height = 800, pg_ops = []\<rparr>]),
      pdf_save = (\<lambda>doc. Inr (''%PDF'' @ concat (map (\<lambda>p. replicate (length (pg_ops p)) CHR ''R'') doc))),
      rgb = (\<lambda>r g b. Inr ()),
      parseInt = (\<lambda>s radix. Some 0)\<rparr>"

definition example_download :: "string \<Rightarrow> string \<Rightarrow> error + buffer option" where
  "example_download bucket file = Inr (Some ''%PDF-1.7'')"

definition example_session :: sessionData where
  "example_session =
     \<lparr>sessionId = ''redaction_0_k3j9x0q1z'', fileName = ''a.pdf'', bucketName = ''docs'',
      platform = Some ''gcp'', pdfBuffer = ''%PDF-1.7'', pageCount = 1,
      pages = [\<lparr>pi_pageNumber = 1,
                pi_dimensions = \<lparr>dim_width = 600, dim_height = 800\<rparr>,
                pi_previewUrl =
                  ''/api/redaction/session/redaction_0_k3j9x0q1z/page/1/preview''\<rparr>],
      createdAt = 0, redactions = [], redactedAt = None\<rparr>"

definition example_cache :: "sessionData node_cache" where
  "example_cache =
     [''redaction_0_k3j9x0q1z'' \<mapsto> \<lparr>ce_t = 3600000, ce_v = example_session\<rparr>]"

definition wide_rectangle :: redaction where
  "wide_rectangle = \<lparr>r_pageNumber = 1, r_x = 500, r_y = 10, r_width = 200, r_height = 10\<rparr>"

definition outside_rectangle :: redaction where
  "outside_rectangle = \<lparr>r_pageNumber = 1, r_x = 700, r_y = 10, r_width = 10, r_height = 10\<rparr>"

definition page2_rectangle :: redaction where
  "page2_rectangle = \<lparr>r_pageNumber = 2, r_x = 10, r_y = 10, r_width = 10, r_height = 10\<rparr>"

definition page0_rectangle :: redaction where
  "page0_rectangle = \<lparr>r_pageNumber = 0, r_x = 10, r_y = 10, r_width = 10, r_height = 10\<rparr>"

definition example_call_a :: apply_call where
  "example_call_a =
     \<lparr>ac_sid = ''redaction_0_k3j9x0q1z'', ac_reds = [wide_rectangle],
      ac_opts = \<lparr>color = None\<rparr>, ac_t0 = 1000, ac_t1 = 5000, ac_t2 = 5001\<rparr>"

definition example_call_b :: apply_call where
  "example_call_b =
     \<lparr>ac_sid = ''redaction_0_k3j9x0q1z'', ac_reds = [outside_rectangle],
      ac_opts = \<lparr>color = None\<rparr>, ac_t0 = 2000, ac_t1 = 4000, ac_t2 = 4001\<rparr>"

definition example_provider :: provider where
  "example_provider =
     \<lparr>gcpStorage = True, awsS3Client = True, azureBlob = True,
      mime_lookup = (\<lambda>name. None),
      getFiles_reply = (\<lambda>w. Inr [''a.pdf'', ''b.pdf'']),
      getMetadata_reply =
        (\<lambda>w. if last w = GCS_getMetadata ''docs'' ''a.pdf''
              then Inl (Error ''metadata unavailable'')
              else Inr \<lparr>md_size = Some 10, md_updated = Some ''2024-01-01T00:00:00Z'',
                        md_timeCreated = None, md_contentType = Some ''application/pdf'',
                        md_etag = Some ''e'', md_md5Hash = Some ''h''\<rparr>),
      createMultipartUpload_reply = (\<lambda>w. Inr ''upload-1''),
      uploadPart_reply = (\<lambda>w. Inr ''tag''),
      completeMultipartUpload_reply = (\<lambda>w. Inr ''https://s3.example/docs/big.bin''),
      stageBlock_reply = (\<lambda>w. Inr ()),
      commitBlockList_reply = (\<lambda>w. Inr ())\<rparr>"

section \<open>Properties\<close>

subsection \<open>Drawing rectangles on the decoded copy\<close>

lemma applyRedactionToPage_Inr:
  assumes "applyRedactionToPage L doc rd opts = Inr doc'"
  shows "\<exists>col. parseColor L (color_string opts) = Inr col \<and>
           1 \<le> r_pageNumber rd \<and> r_pageNumber rd \<le> int (length doc) \<and>
           doc' = doc[nat (r_pageNumber rd - 1) :=
                    drawRectangle (doc ! nat (r_pageNumber rd - 1))
                      (drawn_rectangle col (doc ! nat (r_pageNumber rd - 1)) rd)]"
  using assms
  by (auto simp: applyRedactionToPage_def Let_def split: if_splits sum.splits)

lemma applyRedactionToPage_missing:
  assumes "r_pageNumber rd < 1 \<or> r_pageNumber rd > int (length doc)"
  shows "applyRedactionToPage L doc rd opts =
           Inl (Error (''Page '' @ int_toString (r_pageNumber rd) @ '' not found''))"
  using assms by (auto simp: applyRedactionToPage_def Let_def)

lemma applyRedactionToPage_ok:
  assumes "1 \<le> r_pageNumber rd" "r_pageNumber rd \<le> int (length doc)"
    "parseColor L (color_string opts) = Inr col"
  shows "\<exists>doc'. applyRedactionToPage L doc rd opts = Inr doc' \<and> length doc' = length doc"
  using assms by (auto simp: applyRedactionToPage_def Let_def)

lemma applyEach_ok:
  assumes "\<forall>r\<in>set reds. 1 \<le> r_pageNumber r \<and> r_pageNumber r \<le> int (length doc)"
    "parseColor L (color_string opts) = Inr col"
  shows "\<exists>doc'. applyEach L doc reds opts = Inr doc'"
  using assms
proof (induction reds arbitrary: doc)
  case Nil
  then show ?case by simp
next
  case (Cons rd reds)
  from Cons.prems obtain d1 where d1: "applyRedactionToPage L doc rd opts = Inr d1"
    "length d1 = length doc"
    using applyRedactionToPage_ok [of rd doc L opts col] by auto
  with Cons.prems have "\<forall>r\<in>set reds. 1 \<le> r_pageNumber r \<and> r_pageNumber r \<le> int (length d1)"
    by simp
  from Cons.IH [OF this Cons.prems(2)] d1 show ?case by simp
qed

lemma page_step:
  assumes "i < length doc"
  shows "pg_ops ((doc[k := drawRectangle (doc ! k) (drawn_rectangle col (doc ! k) rd)]) ! i) =
         pg_ops (doc ! i) @ (if k = i then [drawn_rectangle col (doc ! i) rd] else [])"
    and "pg_width ((doc[k := drawRectangle (doc ! k) (drawn_rectangle col (doc ! k) rd)]) ! i) = pg_width (doc ! i)"
    and "pg_height ((doc[k := drawRectangle (doc ! k) (drawn_rectangle col (doc ! k) rd)]) ! i) = pg_height (doc ! i)"
  using assms by (cases "k = i"; simp add: drawRectangle_def)+

lemma drawn_rectangle_cong:
  "pg_width p = pg_width q \<Longrightarrow> pg_height p = pg_height q \<Longrightarrow>
   drawn_rectangle col p rd = drawn_rectangle col q rd"
  by (simp add: drawn_rectangle_def)

lemma applyEach_ops:
  assumes "applyEach L doc reds opts = Inr doc'"
  shows "length doc' = length doc \<and>
         (\<exists>col. (reds \<noteq> [] \<longrightarrow> parseColor L (color_string opts) = Inr col) \<and>
           (\<forall>i<length doc.
             pg_width (doc' ! i) = pg_width (doc ! i) \<and>
             pg_height (doc' ! i) = pg_height (doc ! i) \<and>
             pg_ops (doc' ! i) =
               pg_ops (doc ! i) @
               map (drawn_rectangle col (doc ! i))
                 (filter (\<lambda>r. r_pageNumber r = int i + 1) reds)))"
  using assms
proof (induction reds arbitrary: doc)
  case Nil
  then show ?case by simp
next
  case (Cons rd reds)
  from Cons.prems obtain d1 where d1: "applyRedactionToPage L doc rd opts = Inr d1"
    and rest: "applyEach L d1 reds opts = Inr doc'"
    by (auto split: sum.splits)
  from applyRedactionToPage_Inr [OF d1] obtain col where
    col: "parseColor L (color_string opts) = Inr col"
    and rng: "1 \<le> r_pageNumber rd" "r_pageNumber rd \<le> int (length doc)"
    and d1_eq: "d1 = doc[nat (r_pageNumber rd - 1) :=
                    drawRectangle (doc ! nat (r_pageNumber rd - 1))
                      (drawn_rectangle col (doc ! nat (r_pageNumber rd - 1)) rd)]"
    by (elim exE conjE)
  have len1: "length d1 = length doc" by (simp add: d1_eq)
  from Cons.IH [OF rest] obtain col' where
    len': "length doc' = length d1"
    and col': "reds \<noteq> [] \<longrightarrow> parseColor L (color_string opts) = Inr col'"
    and ih: "\<forall>i<length d1.
             pg_width (doc' ! i) = pg_width (d1 ! i) \<and>
             pg_height (doc' ! i) = pg_height (d1 ! i) \<and>
             pg_ops (doc' ! i) =
               pg_ops (d1 ! i) @
               map (drawn_rectangle col' (d1 ! i))
                 (filter (\<lambda>r. r_pageNumber r = int i + 1) reds)"
    by (elim exE conjE)
  have same: "map (drawn_rectangle col' q) (filter P reds) = map (drawn_rectangle col q) (filter P reds)"
    for q P
  proof (cases "reds = []")
    case True then show ?thesis by simp
  next
    case False with col' col have "col' = col" by simp
    then show ?thesis by simp
  qed
  have "\<forall>i<length doc.
             pg_width (doc' ! i) = pg_width (doc ! i) \<and>
             pg_height (doc' ! i) = pg_height (doc ! i) \<and>
             pg_ops (doc' ! i) =
               pg_ops (doc ! i) @
               map (drawn_rectangle col (doc ! i))
                 (filter (\<lambda>r. r_pageNumber r = int i + 1) (rd # reds))"
  proof (intro allI impI)
    fix i assume i: "i < length doc"
    have w: "pg_width (d1 ! i) = pg_width (doc ! i)" and h: "pg_height (d1 ! i) = pg_height (doc ! i)"
      and o: "pg_ops (d1 ! i) = pg_ops (doc ! i) @
                (if nat (r_pageNumber rd - 1) = i then [drawn_rectangle col (doc ! i) rd] else [])"
      using page_step [OF i] by (simp_all add: d1_eq)
    have dr: "drawn_rectangle col (d1 ! i) = drawn_rectangle col (doc ! i)"
      using drawn_rectangle_cong [OF w h] by (rule ext)
    have k: "(nat (r_pageNumber rd - 1) = i) = (r_pageNumber rd = int i + 1)"
      using rng by auto
    from ih i len1 have
      "pg_width (doc' ! i) = pg_width (d1 ! i)" "pg_height (doc' ! i) = pg_height (d1 ! i)"
      "pg_ops (doc' ! i) = pg_ops (d1 ! i) @
               map (drawn_rectangle col' (d1 ! i)) (filter (\<lambda>r. r_pageNumber r = int i + 1) reds)"
      by simp_all
    then show "pg_width (doc' ! i) = pg_width (doc ! i) \<and>
             pg_height (doc' ! i) = pg_height (doc ! i) \<and>
             pg_ops (doc' ! i) =
               pg_ops (doc ! i) @
               map (drawn_rectangle col (doc ! i))
                 (filter (\<lambda>r. r_pageNumber r = int i + 1) (rd # reds))"
      by (simp add: w h o same dr k)
  qed
  with col len' len1 show ?case
    by (intro conjI exI [of _ col]) simp_all
qed

subsection \<open>Looking a session up and storing it\<close>

lemma applyRedactions_missing:
  "cache_get cache sid t0 = (None, c1) \<Longrightarrow>
   applyRedactions L sid reds opts t0 t1 t2 cache =
     (Inl (Error ''Redaction session not found or expired''), c1)"
  by (simp add: applyRedactions_def)

lemma applyRedactions_found:
  "cache_get cache sid t0 = (Some sd, c1) \<Longrightarrow>
   applyRedactions L sid reds opts t0 t1 t2 cache =
     (case PDFDocument_load L (pdfBuffer sd) of
             Inl e \<Rightarrow> (Inl e, c1)
           | Inr pdfDoc \<Rightarrow>
               (case applyEach L pdfDoc reds opts of
                  Inl e \<Rightarrow> (Inl e, c1)
                | Inr pdfDoc' \<Rightarrow>
                    (case pdf_save L pdfDoc' of
                       Inl e \<Rightarrow> (Inl e, c1)
                     | Inr redactedPdfBytes \<Rightarrow>
                          (Inr \<lparr>redactedPdfBase64 = toString_base64 redactedPdfBytes,
                                   originalSize = length (pdfBuffer sd),
                                   redactedSize = length redactedPdfBytes,
                                   processingTime = int t2 - int t0\<rparr>,
                              cache_set c1 sid (sd\<lparr>redactions := reds, redactedAt := Some t1\<rparr>) t1))))"
  by (simp add: applyRedactions_def Let_def cong: sum.case_cong)

lemma cache_get_Some:
  assumes "cache_get c key now = (Some v, c')"
  shows "c' = c \<and> (\<exists>e. c key = Some e \<and> ce_v e = v \<and> \<not> (ce_t e \<noteq> 0 \<and> ce_t e < now))"
proof (cases "c key")
  case None
  with assms show ?thesis by (simp add: cache_get_def)
next
  case (Some e)
  with assms show ?thesis
    by (cases "cache_check e now") (simp_all add: cache_get_def cache_check_def)
qed

lemma applyRedactions_Inr:
  assumes "applyRedactions L sid reds opts t0 t1 t2 cache = (Inr res, cache')"
  shows "\<exists>sd doc doc' bytes.
           cache_get cache sid t0 = (Some sd, cache) \<and>
           PDFDocument_load L (pdfBuffer sd) = Inr doc \<and>
           applyEach L doc reds opts = Inr doc' \<and>
           pdf_save L doc' = Inr bytes \<and>
           res = \<lparr>redactedPdfBase64 = toString_base64 bytes,
                  originalSize = length (pdfBuffer sd),
                  redactedSize = length bytes,
                  processingTime = int t2 - int t0\<rparr> \<and>
           cache' = cache_set cache sid (sd\<lparr>redactions := reds, redactedAt := Some t1\<rparr>) t1"
proof -
  obtain r c1 where g: "cache_get cache sid t0 = (r, c1)" by (cases "cache_get cache sid t0")
  have "r \<noteq> None"
  proof
    assume "r = None"
    with g have "applyRedactions L sid reds opts t0 t1 t2 cache =
       (Inl (Error ''Redaction session not found or expired''), c1)"
      by (simp add: applyRedactions_missing)
    with assms show False by simp
  qed
  then obtain sd where r: "r = Some sd" by auto
  from g r have c1: "c1 = cache" using cache_get_Some [of cache sid t0 sd c1] by simp
  from g r c1 have g': "cache_get cache sid t0 = (Some sd, cache)" by simp
  note u = applyRedactions_found [OF g', of L reds opts t1 t2]
  obtain doc where ld: "PDFDocument_load L (pdfBuffer sd) = Inr doc"
  proof (cases "PDFDocument_load L (pdfBuffer sd)")
    case (Inl e)
    with u have "applyRedactions L sid reds opts t0 t1 t2 cache = (Inl e, cache)" by simp
    with assms show ?thesis by simp
  next
    case (Inr d) then show ?thesis by (rule that)
  qed
  obtain doc' where ae: "applyEach L doc reds opts = Inr doc'"
  proof (cases "applyEach L doc reds opts")
    case (Inl e)
    with u ld have "applyRedactions L sid reds opts t0 t1 t2 cache = (Inl e, cache)" by simp
    with assms show ?thesis by simp
  next
    case (Inr d) then show ?thesis by (rule that)
  qed
  obtain bytes where sv: "pdf_save L doc' = Inr bytes"
  proof (cases "pdf_save L doc'")
    case (Inl e)
    with u ld ae have "applyRedactions L sid reds opts t0 t1 t2 cache = (Inl e, cache)" by simp
    with assms show ?thesis by simp
  next
    case (Inr d) then show ?thesis by (rule that)
  qed
  from u ld ae sv have "applyRedactions L sid reds opts t0 t1 t2 cache =
     (Inr \<lparr>redactedPdfBase64 = toString_base64 bytes,
                  originalSize = length (pdfBuffer sd),
                  redactedSize = length bytes,
                  processingTime = int t2 - int t0\<rparr>,
      cache_set cache sid (sd\<lparr>redactions := reds, redactedAt := Some t1\<rparr>) t1)"
    by simp
  with assms have
    "res = \<lparr>redactedPdfBase64 = toString_base64 bytes,
                  originalSize = length (pdfBuffer sd),
                  redactedSize = length bytes,
                  processingTime = int t2 - int t0\<rparr>"
    "cache' = cache_set cache sid (sd\<lparr>redactions := reds, redactedAt := Some t1\<rparr>) t1"
    by simp_all
  with g' ld ae sv show ?thesis
    by (intro exI [of _ sd] exI [of _ doc] exI [of _ doc'] exI [of _ bytes]) simp
qed


subsection \<open>The example session\<close>

lemma example_cache_prepared:
  "preparePDFForRedaction example_pdflib example_download (Some ''gcp'')
     ''docs'' ''a.pdf'' ''k3j9x0q1z'' 0 0 0 Map.empty =
   (Inr \<lparr>pr_sessionId = ''redaction_0_k3j9x0q1z'', pr_pageCount = 1,
         pr_pages = pages example_session, pr_originalSize = 8, pr_processingTime = 0\<rparr>,
    example_cache)"
  by (simp add: preparePDFForRedaction_def example_pdflib_def example_download_def
      generateSessionId_def digit_char_def getPageDimensions_def cache_set_def stdTTL_def
      example_cache_def example_session_def Let_def)

lemma example_get:
  "t \<le> 3600000 \<Longrightarrow>
   cache_get example_cache ''redaction_0_k3j9x0q1z'' t = (Some example_session, example_cache)"
  by (simp add: cache_get_def cache_check_def example_cache_def)

lemma example_load:
  "PDFDocument_load example_pdflib ''%PDF-1.7'' =
     Inr [\<lparr>pg_width = 600, pg_height = 800, pg_ops = []\<rparr>]"
  by (simp add: example_pdflib_def)

lemma example_parseColor: "parseColor example_pdflib s = Inr ()"
  by (simp add: parseColor_def example_pdflib_def)

lemma example_wide:
  "applyEach example_pdflib [\<lparr>pg_width = 600, pg_height = 800, pg_ops = []\<rparr>]
     [wide_rectangle] opts =
   Inr [\<lparr>pg_width = 600, pg_height = 800,
         pg_ops = [\<lparr>op_x = 500, op_y = 780, op_width = 200, op_height = 10,
                    op_color = (), op_opacity = 1\<rparr>]\<rparr>]"
  by (simp add: applyRedactionToPage_def example_parseColor wide_rectangle_def
      drawRectangle_def drawn_rectangle_def convertCoordinate_def)

lemma example_save:
  "pdf_save example_pdflib [\<lparr>pg_width = 600, pg_height = 800, pg_ops = [x]\<rparr>] = Inr ''%PDFR''"
  by (simp add: example_pdflib_def)

lemma b64_example: "toString_base64 ''%PDFR'' = ''JVBERlI=''"
  by (simp add: b64_char_def)

lemma example_apply_wide:
  "t0 \<le> 3600000 \<Longrightarrow>
   applyRedactions example_pdflib ''redaction_0_k3j9x0q1z'' [wide_rectangle] opts t0 t1 t2
     example_cache =
   (Inr \<lparr>redactedPdfBase64 = ''JVBERlI='', originalSize = 8, redactedSize = 5,
         processingTime = int t2 - int t0\<rparr>,
    cache_set example_cache ''redaction_0_k3j9x0q1z''
      (example_session\<lparr>redactions := [wide_rectangle], redactedAt := Some t1\<rparr>) t1)"
  by (simp add: applyRedactions_found [OF example_get] example_load example_wide example_save
      b64_example b64_char_def example_session_def del: applyEach.simps)


lemma example_apply_page0:
  "t0 \<le> 3600000 \<Longrightarrow>
   applyRedactions example_pdflib ''redaction_0_k3j9x0q1z'' [page0_rectangle, wide_rectangle]
     opts t0 t1 t2 example_cache =
   (Inl (Error ''Page 0 not found''), example_cache)"
  by (simp add: applyRedactions_found [OF example_get] example_load example_session_def
      applyRedactionToPage_def page0_rectangle_def int_toString_def digit_char_def)

lemma cache_get_stored:
  "cache_get (cache_set c0 sid sd ts) sid t =
     (if t \<le> ts + 3600000 then (Some sd, cache_set c0 sid sd ts)
      else (None, (cache_set c0 sid sd ts)(sid := None)))"
  by (simp add: cache_get_def cache_set_def cache_check_def stdTTL_def)

subsection \<open>What a successful apply stores\<close>

text \<open>
  C8. After every successful \<open>applyRedactions\<close> on an existing session, the session read
  back from the cache has as its redaction list exactly the rectangles of that call
  (whatever list it held before), and its \<open>redactedAt\<close> is \<open>t1\<close>, the clock reading
  the call took when it stamped the session.
\<close>

theorem apply_replaces_redactions:
  assumes "applyRedactions L sid reds opts t0 t1 t2 cache = (Inr res, cache')"
  shows "\<exists>sd'. cache_get cache' sid t1 = (Some sd', cache') \<and>
           redactions sd' = reds \<and> redactedAt sd' = Some t1"
proof -
  from applyRedactions_Inr [OF assms] obtain sd where
    c': "cache' = cache_set cache sid (sd\<lparr>redactions := reds, redactedAt := Some t1\<rparr>) t1"
    by (elim exE conjE)
  show ?thesis
    by (rule exI [of _ "sd\<lparr>redactions := reds, redactedAt := Some t1\<rparr>"])
       (simp add: c' cache_get_stored)
qed

theorem apply_replaces_redactions_witness:
  "applyRedactions example_pdflib ''redaction_0_k3j9x0q1z'' [wide_rectangle] \<lparr>color = None\<rparr>
     1000 2000 3000
     (cache_set example_cache ''redaction_0_k3j9x0q1z''
        (example_session\<lparr>redactions := [page0_rectangle]\<rparr>) 500) =
   (Inr \<lparr>redactedPdfBase64 = ''JVBERlI='', originalSize = 8, redactedSize = 5,
         processingTime = 2000\<rparr>,
    cache_set (cache_set example_cache ''redaction_0_k3j9x0q1z''
        (example_session\<lparr>redactions := [page0_rectangle]\<rparr>) 500) ''redaction_0_k3j9x0q1z''
      (example_session\<lparr>redactions := [wide_rectangle], redactedAt := Some 2000\<rparr>) 2000) \<and>
   (\<exists>sd'. cache_get
             (cache_set (cache_set example_cache ''redaction_0_k3j9x0q1z''
                (example_session\<lparr>redactions := [page0_rectangle]\<rparr>) 500)
                ''redaction_0_k3j9x0q1z''
                (example_session\<lparr>redactions := [wide_rectangle], redactedAt := Some 2000\<rparr>) 2000)
             ''redaction_0_k3j9x0q1z'' 2000 =
           (Some sd',
            cache_set (cache_set example_cache ''redaction_0_k3j9x0q1z''
                (example_session\<lparr>redactions := [page0_rectangle]\<rparr>) 500)
                ''redaction_0_k3j9x0q1z''
                (example_session\<lparr>redactions := [wide_rectangle], redactedAt := Some 2000\<rparr>) 2000) \<and>
           redactions sd' = [wide_rectangle] \<and> redactedAt sd' = Some 2000)"
proof -
  have h: "applyRedactions example_pdflib ''redaction_0_k3j9x0q1z'' [wide_rectangle] \<lparr>color = None\<rparr>
     1000 2000 3000
     (cache_set example_cache ''redaction_0_k3j9x0q1z''
        (example_session\<lparr>redactions := [page0_rectangle]\<rparr>) 500) =
   (Inr \<lparr>redactedPdfBase64 = ''JVBERlI='', originalSize = 8, redactedSize = 5,
         processingTime = 2000\<rparr>,
    cache_set (cache_set example_cache ''redaction_0_k3j9x0q1z''
        (example_session\<lparr>redactions := [page0_rectangle]\<rparr>) 500) ''redaction_0_k3j9x0q1z''
      (example_session\<lparr>redactions := [wide_rectangle], redactedAt := Some 2000\<rparr>) 2000)"
    by (simp add: applyRedactions_found [OF cache_get_stored [THEN trans]] example_load
        example_wide example_save b64_example b64_char_def example_session_def
        del: applyEach.simps)
  from h apply_replaces_redactions [OF h] show ?thesis by (rule conjI)
qed


subsection \<open>What a successful apply leaves alone\<close>

text \<open>
  C10. A successful \<open>applyRedactions\<close> stores the session it found with only
  \<open>redactions\<close> and \<open>redactedAt\<close> changed: the document bytes, page count, pages,
  creation time, file name, bucket name, platform and identifier of the stored session
  are those it had, and no other key of the cache changes. The encoded output is the
  encoding of a fresh decoding of the stored bytes on which every page has gained exactly
  the rectangles of this call that name it, in order. Any later successful call on the
  same session again starts from the decoding of the same stored bytes, so its output
  holds the rectangles of that later call only.
\<close>

theorem apply_frame_and_fresh_copy:
  assumes "applyRedactions L sid reds opts t0 t1 t2 cache = (Inr res, cache')"
  shows "\<exists>sd doc doc' bytes.
           cache_get cache sid t0 = (Some sd, cache) \<and>
           cache' = cache_set cache sid (sd\<lparr>redactions := reds, redactedAt := Some t1\<rparr>) t1 \<and>
           (\<exists>sd'. cache_get cache' sid t1 = (Some sd', cache') \<and>
              pdfBuffer sd' = pdfBuffer sd \<and> pageCount sd' = pageCount sd \<and>
              pages sd' = pages sd \<and> createdAt sd' = createdAt sd \<and>
              fileName sd' = fileName sd \<and> bucketName sd' = bucketName sd \<and>
              platform sd' = platform sd \<and> sessionId sd' = sessionId sd) \<and>
           (\<forall>k. k \<noteq> sid \<longrightarrow> cache' k = cache k) \<and>
           PDFDocument_load L (pdfBuffer sd) = Inr doc \<and>
           applyEach L doc reds opts = Inr doc' \<and>
           pdf_save L doc' = Inr bytes \<and>
           redactedPdfBase64 res = toString_base64 bytes \<and>
           length doc' = length doc \<and>
           (\<exists>col. \<forall>i<length doc.
              pg_ops (doc' ! i) =
                pg_ops (doc ! i) @
                map (drawn_rectangle col (doc ! i))
                  (filter (\<lambda>r. r_pageNumber r = int i + 1) reds)) \<and>
           (\<forall>reds2 opts2 u0 u1 u2 res2 cache2.
              applyRedactions L sid reds2 opts2 u0 u1 u2 cache' = (Inr res2, cache2) \<longrightarrow>
              (\<exists>doc2 bytes2.
                 applyEach L doc reds2 opts2 = Inr doc2 \<and>
                 pdf_save L doc2 = Inr bytes2 \<and>
                 redactedPdfBase64 res2 = toString_base64 bytes2 \<and>
                 (\<exists>col. \<forall>i<length doc.
                    pg_ops (doc2 ! i) =
                      pg_ops (doc ! i) @
                      map (drawn_rectangle col (doc ! i))
                        (filter (\<lambda>r. r_pageNumber r = int i + 1) reds2))))"
proof -
  from applyRedactions_Inr [OF assms] obtain sd doc doc' bytes where
    g: "cache_get cache sid t0 = (Some sd, cache)"
    and ld: "PDFDocument_load L (pdfBuffer sd) = Inr doc"
    and ae: "applyEach L doc reds opts = Inr doc'"
    and sv: "pdf_save L doc' = Inr bytes"
    and res: "res = \<lparr>redactedPdfBase64 = toString_base64 bytes,
                  originalSize = length (pdfBuffer sd),
                  redactedSize = length bytes,
                  processingTime = int t2 - int t0\<rparr>"
    and c': "cache' = cache_set cache sid (sd\<lparr>redactions := reds, redactedAt := Some t1\<rparr>) t1"
    by (elim exE conjE)
  let ?sd' = "sd\<lparr>redactions := reds, redactedAt := Some t1\<rparr>"
  have frame: "\<exists>sd'. cache_get cache' sid t1 = (Some sd', cache') \<and>
              pdfBuffer sd' = pdfBuffer sd \<and> pageCount sd' = pageCount sd \<and>
              pages sd' = pages sd \<and> createdAt sd' = createdAt sd \<and>
              fileName sd' = fileName sd \<and> bucketName sd' = bucketName sd \<and>
              platform sd' = platform sd \<and> sessionId sd' = sessionId sd"
    by (rule exI [of _ ?sd']) (simp add: c' cache_get_stored)
  have others: "\<forall>k. k \<noteq> sid \<longrightarrow> cache' k = cache k"
    by (simp add: c' cache_set_def)
  from applyEach_ops [OF ae] obtain col where
    len: "length doc' = length doc"
    and ops: "\<forall>i<length doc.
             pg_width (doc' ! i) = pg_width (doc ! i) \<and>
             pg_height (doc' ! i) = pg_height (doc ! i) \<and>
             pg_ops (doc' ! i) =
               pg_ops (doc ! i) @
               map (drawn_rectangle col (doc ! i))
                 (filter (\<lambda>r. r_pageNumber r = int i + 1) reds)"
    by (elim exE conjE)
  have ops': "\<exists>col. \<forall>i<length doc.
              pg_ops (doc' ! i) =
                pg_ops (doc ! i) @
                map (drawn_rectangle col (doc ! i))
                  (filter (\<lambda>r. r_pageNumber r = int i + 1) reds)"
    using ops by (intro exI [of _ col]) simp
  have second: "\<exists>doc2 bytes2.
                 applyEach L doc reds2 opts2 = Inr doc2 \<and>
                 pdf_save L doc2 = Inr bytes2 \<and>
                 redactedPdfBase64 res2 = toString_base64 bytes2 \<and>
                 (\<exists>col. \<forall>i<length doc.
                    pg_ops (doc2 ! i) =
                      pg_ops (doc ! i) @
                      map (drawn_rectangle col (doc ! i))
                        (filter (\<lambda>r. r_pageNumber r = int i + 1) reds2))"
    if a2: "applyRedactions L sid reds2 opts2 u0 u1 u2 cache' = (Inr res2, cache2)"
    for reds2 opts2 u0 u1 u2 res2 cache2
  proof -
    from applyRedactions_Inr [OF a2] obtain sd2 d d2 bytes2 where
      g2: "cache_get cache' sid u0 = (Some sd2, cache')"
      and ld2: "PDFDocument_load L (pdfBuffer sd2) = Inr d"
      and ae2: "applyEach L d reds2 opts2 = Inr d2"
      and sv2: "pdf_save L d2 = Inr bytes2"
      and res2: "res2 = \<lparr>redactedPdfBase64 = toString_base64 bytes2,
                  originalSize = length (pdfBuffer sd2),
                  redactedSize = length bytes2,
                  processingTime = int u2 - int u0\<rparr>"
      by (elim exE conjE)
    from g2 have "sd2 = ?sd'"
      by (simp add: c' cache_get_stored split: if_splits)
    then have "pdfBuffer sd2 = pdfBuffer sd" by simp
    with ld ld2 have d: "d = doc" by simp
    from applyEach_ops [OF ae2] obtain col2 where
      "\<forall>i<length d.
             pg_width (d2 ! i) = pg_width (d ! i) \<and>
             pg_height (d2 ! i) = pg_height (d ! i) \<and>
             pg_ops (d2 ! i) =
               pg_ops (d ! i) @
               map (drawn_rectangle col2 (d ! i))
                 (filter (\<lambda>r. r_pageNumber r = int i + 1) reds2)"
      by (elim exE conjE)
    then have "\<exists>col. \<forall>i<length doc.
                    pg_ops (d2 ! i) =
                      pg_ops (doc ! i) @
                      map (drawn_rectangle col (doc ! i))
                        (filter (\<lambda>r. r_pageNumber r = int i + 1) reds2)"
      unfolding d by (intro exI [of _ col2]) simp
    with ae2 sv2 res2 d show ?thesis
      by (intro exI [of _ d2] exI [of _ bytes2]) simp
  qed
  have r64: "redactedPdfBase64 res = toString_base64 bytes" by (simp add: res)
  show ?thesis
    apply (rule exI [of _ sd], rule exI [of _ doc], rule exI [of _ doc'], rule exI [of _ bytes])
    apply (intro conjI)
              apply (rule g)
             apply (rule c')
            apply (rule frame)
           apply (rule others)
          apply (rule ld)
         apply (rule ae)
        apply (rule sv)
       apply (rule r64)
      apply (rule len)
     apply (rule ops')
    apply (intro allI impI)
    apply (erule second)
    done
qed


theorem apply_frame_and_fresh_copy_witness:
  "applyRedactions example_pdflib ''redaction_0_k3j9x0q1z'' [wide_rectangle] \<lparr>color = None\<rparr>
     1000 2000 3000 example_cache =
   (Inr \<lparr>redactedPdfBase64 = ''JVBERlI='', originalSize = 8, redactedSize = 5,
         processingTime = 2000\<rparr>,
    cache_set example_cache ''redaction_0_k3j9x0q1z''
      (example_session\<lparr>redactions := [wide_rectangle], redactedAt := Some 2000\<rparr>) 2000) \<and>
   applyRedactions example_pdflib ''redaction_0_k3j9x0q1z'' [wide_rectangle] \<lparr>color = None\<rparr>
     4000 5000 6000
     (cache_set example_cache ''redaction_0_k3j9x0q1z''
        (example_session\<lparr>redactions := [wide_rectangle], redactedAt := Some 2000\<rparr>) 2000) =
   (Inr \<lparr>redactedPdfBase64 = ''JVBERlI='', originalSize = 8, redactedSize = 5,
         processingTime = 2000\<rparr>,
    cache_set (cache_set example_cache ''redaction_0_k3j9x0q1z''
        (example_session\<lparr>redactions := [wide_rectangle], redactedAt := Some 2000\<rparr>) 2000)
      ''redaction_0_k3j9x0q1z''
      (example_session\<lparr>redactions := [wide_rectangle], redactedAt := Some 5000\<rparr>) 5000) \<and>
   (\<exists>sd'. cache_get (cache_set example_cache ''redaction_0_k3j9x0q1z''
              (example_session\<lparr>redactions := [wide_rectangle], redactedAt := Some 2000\<rparr>) 2000)
              ''redaction_0_k3j9x0q1z'' 2000 =
            (Some sd', cache_set example_cache ''redaction_0_k3j9x0q1z''
              (example_session\<lparr>redactions := [wide_rectangle], redactedAt := Some 2000\<rparr>) 2000) \<and>
          pdfBuffer sd' = ''%PDF-1.7'') \<and>
   (\<exists>doc2 bytes2. pdf_save example_pdflib doc2 = Inr bytes2 \<and>
      ''JVBERlI='' = toString_base64 bytes2 \<and> length (pg_ops (doc2 ! 0)) = 1)"
proof -
  let ?c1 = "cache_set example_cache ''redaction_0_k3j9x0q1z''
      (example_session\<lparr>redactions := [wide_rectangle], redactedAt := Some 2000\<rparr>) 2000"
  have a1: "applyRedactions example_pdflib ''redaction_0_k3j9x0q1z'' [wide_rectangle]
     \<lparr>color = None\<rparr> 1000 2000 3000 example_cache =
   (Inr \<lparr>redactedPdfBase64 = ''JVBERlI='', originalSize = 8, redactedSize = 5,
         processingTime = 2000\<rparr>, ?c1)"
    using example_apply_wide [of 1000 "\<lparr>color = None\<rparr>" 2000 3000] by simp
  have a2: "applyRedactions example_pdflib ''redaction_0_k3j9x0q1z'' [wide_rectangle]
     \<lparr>color = None\<rparr> 4000 5000 6000 ?c1 =
   (Inr \<lparr>redactedPdfBase64 = ''JVBERlI='', originalSize = 8, redactedSize = 5,
         processingTime = 2000\<rparr>,
    cache_set ?c1 ''redaction_0_k3j9x0q1z''
      (example_session\<lparr>redactions := [wide_rectangle], redactedAt := Some 5000\<rparr>) 5000)"
    by (simp add: applyRedactions_found [OF cache_get_stored [THEN trans]] example_load
        example_wide example_save b64_example b64_char_def example_session_def
        del: applyEach.simps)
  let ?r1 = "\<lparr>redactedPdfBase64 = ''JVBERlI='', originalSize = 8, redactedSize = 5,
         processingTime = 2000\<rparr>"
  from apply_frame_and_fresh_copy [OF a1] obtain sd doc doc' bytes where big:
    "cache_get example_cache ''redaction_0_k3j9x0q1z'' 1000 = (Some sd, example_cache) \<and>
           ?c1 = cache_set example_cache ''redaction_0_k3j9x0q1z''
                   (sd\<lparr>redactions := [wide_rectangle], redactedAt := Some 2000\<rparr>) 2000 \<and>
           (\<exists>sd'. cache_get ?c1 ''redaction_0_k3j9x0q1z'' 2000 = (Some sd', ?c1) \<and>
              pdfBuffer sd' = pdfBuffer sd \<and> pageCount sd' = pageCount sd \<and>
              pages sd' = pages sd \<and> createdAt sd' = createdAt sd \<and>
              fileName sd' = fileName sd \<and> bucketName sd' = bucketName sd \<and>
              platform sd' = platform sd \<and> sessionId sd' = sessionId sd) \<and>
           (\<forall>k. k \<noteq> ''redaction_0_k3j9x0q1z'' \<longrightarrow> ?c1 k = example_cache k) \<and>
           PDFDocument_load example_pdflib (pdfBuffer sd) = Inr doc \<and>
           applyEach example_pdflib doc [wide_rectangle] \<lparr>color = None\<rparr> = Inr doc' \<and>
           pdf_save example_pdflib doc' = Inr bytes \<and>
           redactedPdfBase64 ?r1 = toString_base64 bytes \<and>
           length doc' = length doc \<and>
           (\<exists>col. \<forall>i<length doc.
              pg_ops (doc' ! i) =
                pg_ops (doc ! i) @
                map (drawn_rectangle col (doc ! i))
                  (filter (\<lambda>r. r_pageNumber r = int i + 1) [wide_rectangle])) \<and>
           (\<forall>reds2 opts2 u0 u1 u2 res2 cache2.
              applyRedactions example_pdflib ''redaction_0_k3j9x0q1z'' reds2 opts2 u0 u1 u2 ?c1
                = (Inr res2, cache2) \<longrightarrow>
              (\<exists>doc2 bytes2.
                 applyEach example_pdflib doc reds2 opts2 = Inr doc2 \<and>
                 pdf_save example_pdflib doc2 = Inr bytes2 \<and>
                 redactedPdfBase64 res2 = toString_base64 bytes2 \<and>
                 (\<exists>col. \<forall>i<length doc.
                    pg_ops (doc2 ! i) =
                      pg_ops (doc ! i) @
                      map (drawn_rectangle col (doc ! i))
                        (filter (\<lambda>r. r_pageNumber r = int i + 1) reds2))))"
    by (elim exE)
  note g = big [THEN conjunct1]
  note frame = big [THEN conjunct2, THEN conjunct2, THEN conjunct1]
  note ld = big [THEN conjunct2, THEN conjunct2, THEN conjunct2, THEN conjunct2, THEN conjunct1]
  note second = big [THEN conjunct2, THEN conjunct2, THEN conjunct2, THEN conjunct2,
      THEN conjunct2, THEN conjunct2, THEN conjunct2, THEN conjunct2, THEN conjunct2,
      THEN conjunct2]
  from g have sd: "sd = example_session" by (simp add: example_get)
  have buf: "pdfBuffer example_session = ''%PDF-1.7''" by (simp add: example_session_def)
  from ld have doc: "doc = [\<lparr>pg_width = 600, pg_height = 800, pg_ops = []\<rparr>]"
    by (simp add: sd buf example_load)
  from frame obtain sd1 where
    s1: "cache_get ?c1 ''redaction_0_k3j9x0q1z'' 2000 = (Some sd1, ?c1)"
    and s2: "pdfBuffer sd1 = pdfBuffer sd"
    by (elim exE conjE)
  have f: "\<exists>sd'. cache_get ?c1 ''redaction_0_k3j9x0q1z'' 2000 = (Some sd', ?c1) \<and>
          pdfBuffer sd' = ''%PDF-1.7''"
    using s1 s2 by (intro exI [of _ sd1]) (simp add: sd buf)
  from second [rule_format, OF a2] obtain doc2 bytes2 col where
    sv: "pdf_save example_pdflib doc2 = Inr bytes2"
    and b': "redactedPdfBase64 \<lparr>redactedPdfBase64 = ''JVBERlI='', originalSize = 8,
               redactedSize = 5, processingTime = 2000\<rparr> = toString_base64 bytes2"
    and ops: "\<forall>i<length doc.
                    pg_ops (doc2 ! i) =
                      pg_ops (doc ! i) @
                      map (drawn_rectangle col (doc ! i))
                        (filter (\<lambda>r. r_pageNumber r = int i + 1) [wide_rectangle])"
    by (elim exE conjE)
  from b' have b: "''JVBERlI='' = toString_base64 bytes2" by simp
  from ops have "length (pg_ops (doc2 ! 0)) = 1"
    by (simp add: doc wide_rectangle_def)
  with sv b have "\<exists>doc2 bytes2. pdf_save example_pdflib doc2 = Inr bytes2 \<and>
      ''JVBERlI='' = toString_base64 bytes2 \<and> length (pg_ops (doc2 ! 0)) = 1"
    by (intro exI [of _ doc2] exI [of _ bytes2]) simp
  with a1 a2 f show ?thesis by (intro conjI)
qed

subsection \<open>Validation\<close>

lemma applyEach_first_missing:
  assumes "\<forall>r\<in>set pre. 1 \<le> r_pageNumber r \<and> r_pageNumber r \<le> int (length doc)"
    and "pre \<noteq> [] \<longrightarrow> parseColor L (color_string opts) = Inr col"
    and "r_pageNumber rd < 1 \<or> int (length doc) < r_pageNumber rd"
  shows "applyEach L doc (pre @ rd # rest) opts =
           Inl (Error (''Page '' @ int_toString (r_pageNumber rd) @ '' not found''))"
  using assms
proof (induction pre arbitrary: doc)
  case Nil
  then show ?case by (simp add: applyRedactionToPage_missing)
next
  case (Cons p pre)
  from Cons.prems have col: "parseColor L (color_string opts) = Inr col" by simp
  from Cons.prems col obtain d1 where d1: "applyRedactionToPage L doc p opts = Inr d1"
    "length d1 = length doc"
    using applyRedactionToPage_ok [of p doc L opts col] by auto
  have "applyEach L d1 (pre @ rd # rest) opts =
           Inl (Error (''Page '' @ int_toString (r_pageNumber rd) @ '' not found''))"
    using Cons.prems col d1 by (intro Cons.IH) simp_all
  with d1 show ?case by simp
qed

lemma validateRedaction_errors:
  "errors (validateRedaction rd pw ph) =
     (if r_pageNumber rd < 1 then [''Invalid page number''] else []) @
     (if r_x rd < 0 \<or> r_x rd > pw then [''X coordinate out of bounds''] else []) @
     (if r_y rd < 0 \<or> r_y rd > ph then [''Y coordinate out of bounds''] else []) @
     (if r_width rd \<le> 0 \<or> r_x rd + r_width rd > pw
      then [''Invalid width or extends beyond page''] else []) @
     (if r_height rd \<le> 0 \<or> r_y rd + r_height rd > ph
      then [''Invalid height or extends beyond page''] else [])"
proof -
  have "(r_pageNumber rd = 0 \<or> r_pageNumber rd < 1) = (r_pageNumber rd < 1)" by auto
  then show ?thesis by (simp add: validateRedaction_def Let_def)
qed

lemma applyEach_draws:
  assumes "\<forall>r\<in>set reds. 1 \<le> r_pageNumber r \<and> r_pageNumber r \<le> int (length doc)"
    and "parseColor L (color_string opts) = Inr col"
  shows "\<exists>doc'. applyEach L doc reds opts = Inr doc' \<and> length doc' = length doc \<and>
           (\<forall>i<length doc.
              pg_ops (doc' ! i) =
                pg_ops (doc ! i) @
                map (drawn_rectangle col (doc ! i))
                  (filter (\<lambda>r. r_pageNumber r = int i + 1) reds))"
proof -
  from applyEach_ok [OF assms] obtain doc' where ae: "applyEach L doc reds opts = Inr doc'"
    by (elim exE)
  from applyEach_ops [OF ae] obtain col' where
    len: "length doc' = length doc"
    and col': "reds \<noteq> [] \<longrightarrow> parseColor L (color_string opts) = Inr col'"
    and ops: "\<forall>i<length doc.
             pg_width (doc' ! i) = pg_width (doc ! i) \<and>
             pg_height (doc' ! i) = pg_height (doc ! i) \<and>
             pg_ops (doc' ! i) =
               pg_ops (doc ! i) @
               map (drawn_rectangle col' (doc ! i))
                 (filter (\<lambda>r. r_pageNumber r = int i + 1) reds)"
    by (elim exE conjE)
  have same: "map (drawn_rectangle col' q) (filter Q reds) = map (drawn_rectangle col q) (filter Q reds)"
    for q Q
  proof (cases "reds = []")
    case True then show ?thesis by simp
  next
    case False with col' assms(2) have "col' = col" by simp
    then show ?thesis by simp
  qed
  from ops have "\<forall>i<length doc.
              pg_ops (doc' ! i) =
                pg_ops (doc ! i) @
                map (drawn_rectangle col (doc ! i))
                  (filter (\<lambda>r. r_pageNumber r = int i + 1) reds)"
    by (simp add: same)
  with ae len show ?thesis by (intro exI [of _ doc']) simp
qed

lemma example_two:
  "applyEach example_pdflib [\<lparr>pg_width = 600, pg_height = 800, pg_ops = []\<rparr>]
     [wide_rectangle, outside_rectangle] opts =
   Inr [\<lparr>pg_width = 600, pg_height = 800,
         pg_ops = [\<lparr>op_x = 500, op_y = 780, op_width = 200, op_height = 10,
                    op_color = (), op_opacity = 1\<rparr>,
                   \<lparr>op_x = 700, op_y = 780, op_width = 10, op_height = 10,
                    op_color = (), op_opacity = 1\<rparr>]\<rparr>]"
  by (simp add: applyRedactionToPage_def example_parseColor wide_rectangle_def
      outside_rectangle_def drawRectangle_def drawn_rectangle_def convertCoordinate_def)

lemma example_save_two:
  "pdf_save example_pdflib [\<lparr>pg_width = 600, pg_height = 800, pg_ops = [x, y]\<rparr>] = Inr ''%PDFRR''"
  by (simp add: example_pdflib_def)

lemma b64_example_two: "toString_base64 ''%PDFRR'' = ''JVBERlJS''"
  by (simp add: b64_char_def)

lemma example_apply_two:
  "t0 \<le> 3600000 \<Longrightarrow>
   applyRedactions example_pdflib ''redaction_0_k3j9x0q1z'' [wide_rectangle, outside_rectangle]
     opts t0 t1 t2 example_cache =
   (Inr \<lparr>redactedPdfBase64 = ''JVBERlJS'', originalSize = 8, redactedSize = 6,
         processingTime = int t2 - int t0\<rparr>,
    cache_set example_cache ''redaction_0_k3j9x0q1z''
      (example_session\<lparr>redactions := [wide_rectangle, outside_rectangle],
         redactedAt := Some t1\<rparr>) t1)"
  by (simp add: applyRedactions_found [OF example_get] example_load example_two
      example_save_two b64_example_two b64_char_def example_session_def del: applyEach.simps)

lemma example_apply_page2:
  "t0 \<le> 3600000 \<Longrightarrow>
   applyRedactions example_pdflib ''redaction_0_k3j9x0q1z'' [page2_rectangle, wide_rectangle]
     opts t0 t1 t2 example_cache =
   (Inl (Error ''Page 2 not found''), example_cache)"
  by (simp add: applyRedactions_found [OF example_get] example_load example_session_def
      applyRedactionToPage_def page2_rectangle_def int_toString_def digit_char_def)

text \<open>
  C2, as the code has it. \<open>validateRedaction\<close> checks one rectangle against the page
  dimensions it is given and reports every violation of that rectangle together, not
  only the first: a page number below 1, \<open>x\<close> or \<open>y\<close> outside the page, a width or
  height that is not positive or that reaches beyond the page. It compares the values as
  given, without resolving fractions. \<open>applyRedactions\<close> does not call it: the only check
  it makes is that the page of each rectangle exists. It stops at the first rectangle
  whose page does not exist, with the single error \<open>Page n not found\<close> and the cache as
  it was. When the page of every rectangle exists it draws every one of them, whatever
  its coordinates: each page of the decoded copy gains the rectangles that name it, and
  the call returns the encoding of that copy and stores the session.
\<close>

theorem validation_as_implemented:
  "(''Invalid page number'' \<in> set (errors (validateRedaction rd pw ph))
      \<longleftrightarrow> r_pageNumber rd < 1) \<and>
   (''X coordinate out of bounds'' \<in> set (errors (validateRedaction rd pw ph))
      \<longleftrightarrow> r_x rd < 0 \<or> r_x rd > pw) \<and>
   (''Y coordinate out of bounds'' \<in> set (errors (validateRedaction rd pw ph))
      \<longleftrightarrow> r_y rd < 0 \<or> r_y rd > ph) \<and>
   (''Invalid width or extends beyond page'' \<in> set (errors (validateRedaction rd pw ph))
      \<longleftrightarrow> r_width rd \<le> 0 \<or> r_x rd + r_width rd > pw) \<and>
   (''Invalid height or extends beyond page'' \<in> set (errors (validateRedaction rd pw ph))
      \<longleftrightarrow> r_height rd \<le> 0 \<or> r_y rd + r_height rd > ph) \<and>
   (isValid (validateRedaction rd pw ph) \<longleftrightarrow> errors (validateRedaction rd pw ph) = []) \<and>
   (cache_get cache sid t0 = (Some sd, cache) \<and>
    PDFDocument_load L (pdfBuffer sd) = Inr doc \<and>
    (\<forall>r\<in>set pre. 1 \<le> r_pageNumber r \<and> r_pageNumber r \<le> int (length doc)) \<and>
    (pre \<noteq> [] \<longrightarrow> parseColor L (color_string opts) = Inr col) \<and>
    (r_pageNumber rd < 1 \<or> int (length doc) < r_pageNumber rd) \<longrightarrow>
    applyRedactions L sid (pre @ rd # rest) opts t0 t1 t2 cache =
      (Inl (Error (''Page '' @ int_toString (r_pageNumber rd) @ '' not found'')), cache)) \<and>
   ((\<forall>r\<in>set reds. 1 \<le> r_pageNumber r \<and> r_pageNumber r \<le> int (length doc)) \<and>
    parseColor L (color_string opts) = Inr col \<longrightarrow>
    (\<exists>doc'. applyEach L doc reds opts = Inr doc' \<and> length doc' = length doc \<and>
       (\<forall>i<length doc.
          pg_ops (doc' ! i) =
            pg_ops (doc ! i) @
            map (drawn_rectangle col (doc ! i))
              (filter (\<lambda>r. r_pageNumber r = int i + 1) reds)))) \<and>
   (cache_get cache sid t0 = (Some sd, cache) \<and>
    PDFDocument_load L (pdfBuffer sd) = Inr doc \<and>
    applyEach L doc reds opts = Inr drawn \<and> pdf_save L drawn = Inr bytes \<longrightarrow>
    applyRedactions L sid reds opts t0 t1 t2 cache =
      (Inr \<lparr>redactedPdfBase64 = toString_base64 bytes,
            originalSize = length (pdfBuffer sd),
            redactedSize = length bytes,
            processingTime = int t2 - int t0\<rparr>,
       cache_set cache sid (sd\<lparr>redactions := reds, redactedAt := Some t1\<rparr>) t1))"
proof (intro conjI impI)
  show "isValid (validateRedaction rd pw ph) \<longleftrightarrow> errors (validateRedaction rd pw ph) = []"
    by (simp add: validateRedaction_def Let_def)
next
  assume a: "cache_get cache sid t0 = (Some sd, cache) \<and>
    PDFDocument_load L (pdfBuffer sd) = Inr doc \<and>
    (\<forall>r\<in>set pre. 1 \<le> r_pageNumber r \<and> r_pageNumber r \<le> int (length doc)) \<and>
    (pre \<noteq> [] \<longrightarrow> parseColor L (color_string opts) = Inr col) \<and>
    (r_pageNumber rd < 1 \<or> int (length doc) < r_pageNumber rd)"
  then have g: "cache_get cache sid t0 = (Some sd, cache)"
    and ld: "PDFDocument_load L (pdfBuffer sd) = Inr doc" by simp_all
  from a have "applyEach L doc (pre @ rd # rest) opts =
           Inl (Error (''Page '' @ int_toString (r_pageNumber rd) @ '' not found''))"
    by (intro applyEach_first_missing [of pre doc L opts col]) simp_all
  with ld show "applyRedactions L sid (pre @ rd # rest) opts t0 t1 t2 cache =
      (Inl (Error (''Page '' @ int_toString (r_pageNumber rd) @ '' not found'')), cache)"
    by (simp add: applyRedactions_found [OF g] del: applyEach.simps)
next
  assume "(\<forall>r\<in>set reds. 1 \<le> r_pageNumber r \<and> r_pageNumber r \<le> int (length doc)) \<and>
    parseColor L (color_string opts) = Inr col"
  then show "\<exists>doc'. applyEach L doc reds opts = Inr doc' \<and> length doc' = length doc \<and>
       (\<forall>i<length doc.
          pg_ops (doc' ! i) =
            pg_ops (doc ! i) @
            map (drawn_rectangle col (doc ! i))
              (filter (\<lambda>r. r_pageNumber r = int i + 1) reds))"
    using applyEach_draws [of reds doc L opts col] by simp
next
  assume a: "cache_get cache sid t0 = (Some sd, cache) \<and>
    PDFDocument_load L (pdfBuffer sd) = Inr doc \<and>
    applyEach L doc reds opts = Inr drawn \<and> pdf_save L drawn = Inr bytes"
  then have g: "cache_get cache sid t0 = (Some sd, cache)" by simp
  from a show "applyRedactions L sid reds opts t0 t1 t2 cache =
      (Inr \<lparr>redactedPdfBase64 = toString_base64 bytes,
            originalSize = length (pdfBuffer sd),
            redactedSize = length bytes,
            processingTime = int t2 - int t0\<rparr>,
       cache_set cache sid (sd\<lparr>redactions := reds, redactedAt := Some t1\<rparr>) t1)"
    by (simp add: applyRedactions_found [OF g] del: applyEach.simps)
qed (simp_all add: validateRedaction_errors)

text \<open>
  C2 as stated fails: applied to two rectangles on page 1 of the 600 by 800 point
  example document, one reaching from 500 to 700 points across and one starting at 700,
  \<open>applyRedactions\<close> succeeds and reports no violation, although \<open>validateRedaction\<close>
  finds violations in both. Applied to a rectangle on the missing page 2 followed by the
  wide rectangle, it returns the one error for page 2.
\<close>

theorem apply_validation_counterexample:
  "applyRedactions example_pdflib ''redaction_0_k3j9x0q1z''
     [wide_rectangle, outside_rectangle] \<lparr>color = None\<rparr> 1000 2000 3000 example_cache =
     (Inr \<lparr>redactedPdfBase64 = ''JVBERlJS'', originalSize = 8, redactedSize = 6,
           processingTime = 2000\<rparr>,
      cache_set example_cache ''redaction_0_k3j9x0q1z''
        (example_session\<lparr>redactions := [wide_rectangle, outside_rectangle],
           redactedAt := Some 2000\<rparr>) 2000) \<and>
   errors (validateRedaction wide_rectangle 600 800) =
     [''Invalid width or extends beyond page''] \<and>
   errors (validateRedaction outside_rectangle 600 800) =
     [''X coordinate out of bounds'', ''Invalid width or extends beyond page''] \<and>
   convertCoordinate (r_x wide_rectangle) 600 + convertCoordinate (r_width wide_rectangle) 600
     = 700 \<and>
   convertCoordinate (r_x outside_rectangle) 600 = 700 \<and>
   applyRedactions example_pdflib ''redaction_0_k3j9x0q1z''
     [page2_rectangle, wide_rectangle] \<lparr>color = None\<rparr> 1000 2000 3000 example_cache =
     (Inl (Error ''Page 2 not found''), example_cache)"
proof -
  have "applyRedactions example_pdflib ''redaction_0_k3j9x0q1z''
     [wide_rectangle, outside_rectangle] \<lparr>color = None\<rparr> 1000 2000 3000 example_cache =
     (Inr \<lparr>redactedPdfBase64 = ''JVBERlJS'', originalSize = 8, redactedSize = 6,
           processingTime = 2000\<rparr>,
      cache_set example_cache ''redaction_0_k3j9x0q1z''
        (example_session\<lparr>redactions := [wide_rectangle, outside_rectangle],
           redactedAt := Some 2000\<rparr>) 2000)"
    using example_apply_two [of 1000 "\<lparr>color = None\<rparr>" 2000 3000] by simp
  moreover have "errors (validateRedaction wide_rectangle 600 800) =
     [''Invalid width or extends beyond page'']"
    by (simp add: validateRedaction_errors wide_rectangle_def)
  moreover have "errors (validateRedaction outside_rectangle 600 800) =
     [''X coordinate out of bounds'', ''Invalid width or extends beyond page'']"
    by (simp add: validateRedaction_errors outside_rectangle_def)
  moreover have "convertCoordinate (r_x wide_rectangle) 600 +
      convertCoordinate (r_width wide_rectangle) 600 = 700"
    by (simp add: convertCoordinate_def wide_rectangle_def)
  moreover have "convertCoordinate (r_x outside_rectangle) 600 = 700"
    by (simp add: convertCoordinate_def outside_rectangle_def)
  moreover have "applyRedactions example_pdflib ''redaction_0_k3j9x0q1z''
     [page2_rectangle, wide_rectangle] \<lparr>color = None\<rparr> 1000 2000 3000 example_cache =
     (Inl (Error ''Page 2 not found''), example_cache)"
    by (rule example_apply_page2) simp
  ultimately show ?thesis by (intro conjI)
qed


text \<open>The theorem on the example session: a rectangle on the missing page 2 after one
  that is drawn, and two rectangles that are both drawn.\<close>

theorem validation_as_implemented_witness:
  "cache_get example_cache ''redaction_0_k3j9x0q1z'' 1000 = (Some example_session, example_cache) \<and>
   PDFDocument_load example_pdflib (pdfBuffer example_session) =
     Inr [\<lparr>pg_width = 600, pg_height = 800, pg_ops = []\<rparr>] \<and>
   1 \<le> r_pageNumber wide_rectangle \<and>
   r_pageNumber wide_rectangle \<le>
     int (length [\<lparr>pg_width = 600, pg_height = 800, pg_ops = []\<rparr> :: unit pdfpage]) \<and>
   1 \<le> r_pageNumber outside_rectangle \<and>
   r_pageNumber outside_rectangle \<le>
     int (length [\<lparr>pg_width = 600, pg_height = 800, pg_ops = []\<rparr> :: unit pdfpage]) \<and>
   parseColor example_pdflib (color_string \<lparr>color = None\<rparr>) = Inr () \<and>
   int (length [\<lparr>pg_width = 600, pg_height = 800, pg_ops = []\<rparr> :: unit pdfpage])
     < r_pageNumber page2_rectangle \<and>
   applyRedactions example_pdflib ''redaction_0_k3j9x0q1z''
     ([wide_rectangle] @ page2_rectangle # [outside_rectangle]) \<lparr>color = None\<rparr>
     1000 2000 3000 example_cache =
     (Inl (Error (''Page '' @ int_toString (r_pageNumber page2_rectangle) @ '' not found'')),
      example_cache) \<and>
   (\<exists>doc'. applyEach example_pdflib [\<lparr>pg_width = 600, pg_height = 800, pg_ops = []\<rparr>]
             [wide_rectangle, outside_rectangle] \<lparr>color = None\<rparr> = Inr doc' \<and>
           length doc' = 1 \<and>
           pg_ops (doc' ! 0) =
             [drawn_rectangle () \<lparr>pg_width = 600, pg_height = 800, pg_ops = []\<rparr> wide_rectangle,
              drawn_rectangle () \<lparr>pg_width = 600, pg_height = 800, pg_ops = []\<rparr>
                outside_rectangle]) \<and>
   applyEach example_pdflib [\<lparr>pg_width = 600, pg_height = 800, pg_ops = []\<rparr>]
     [wide_rectangle, outside_rectangle] \<lparr>color = None\<rparr> =
     Inr [\<lparr>pg_width = 600, pg_height = 800,
           pg_ops = [\<lparr>op_x = 500, op_y = 780, op_width = 200, op_height = 10,
                      op_color = (), op_opacity = 1\<rparr>,
                     \<lparr>op_x = 700, op_y = 780, op_width = 10, op_height = 10,
                      op_color = (), op_opacity = 1\<rparr>]\<rparr>] \<and>
   pdf_save example_pdflib
     [\<lparr>pg_width = 600, pg_height = 800,
       pg_ops = [\<lparr>op_x = 500, op_y = 780, op_width = 200, op_height = 10,
                  op_color = (), op_opacity = 1\<rparr>,
                 \<lparr>op_x = 700, op_y = 780, op_width = 10, op_height = 10,
                  op_color = (), op_opacity = 1\<rparr>]\<rparr>] = Inr ''%PDFRR'' \<and>
   applyRedactions example_pdflib ''redaction_0_k3j9x0q1z''
     [wide_rectangle, outside_rectangle] \<lparr>color = None\<rparr> 1000 2000 3000 example_cache =
     (Inr \<lparr>redactedPdfBase64 = toString_base64 ''%PDFRR'',
           originalSize = length (pdfBuffer example_session),
           redactedSize = length ''%PDFRR'',
           processingTime = int 3000 - int 1000\<rparr>,
      cache_set example_cache ''redaction_0_k3j9x0q1z''
        (example_session\<lparr>redactions := [wide_rectangle, outside_rectangle],
           redactedAt := Some 2000\<rparr>) 2000)"
proof -
  let ?blank = "\<lparr>pg_width = 600, pg_height = 800, pg_ops = []\<rparr> :: unit pdfpage"
  let ?two = "\<lparr>pg_width = 600, pg_height = 800,
           pg_ops = [\<lparr>op_x = 500, op_y = 780, op_width = 200, op_height = 10,
                      op_color = (), op_opacity = 1\<rparr>,
                     \<lparr>op_x = 700, op_y = 780, op_width = 10, op_height = 10,
                      op_color = (), op_opacity = 1\<rparr>]\<rparr> :: unit pdfpage"
  note T = validation_as_implemented [where rd = page2_rectangle and cache = example_cache
      and sid = "''redaction_0_k3j9x0q1z''" and ?t0.0 = 1000 and sd = example_session
      and L = example_pdflib and doc = "[?blank]" and pre = "[wide_rectangle]"
      and opts = "\<lparr>color = None\<rparr>" and col = "()" and rest = "[outside_rectangle]"
      and ?t1.0 = 2000 and ?t2.0 = 3000 and reds = "[wide_rectangle, outside_rectangle]"
      and drawn = "[?two]" and bytes = "''%PDFRR''"]
  note T7 = T [THEN conjunct2, THEN conjunct2, THEN conjunct2, THEN conjunct2, THEN conjunct2,
      THEN conjunct2, THEN conjunct1]
  note T8 = T [THEN conjunct2, THEN conjunct2, THEN conjunct2, THEN conjunct2, THEN conjunct2,
      THEN conjunct2, THEN conjunct2, THEN conjunct1]
  note T9 = T [THEN conjunct2, THEN conjunct2, THEN conjunct2, THEN conjunct2, THEN conjunct2,
      THEN conjunct2, THEN conjunct2, THEN conjunct2]
  have h1: "cache_get example_cache ''redaction_0_k3j9x0q1z'' 1000 =
      (Some example_session, example_cache)"
    by (rule example_get) simp
  have h2: "PDFDocument_load example_pdflib (pdfBuffer example_session) = Inr [?blank]"
    by (simp add: example_session_def example_load)
  have w1: "1 \<le> r_pageNumber wide_rectangle"
    and w2: "r_pageNumber wide_rectangle \<le> int (length [?blank])"
    by (simp_all add: wide_rectangle_def)
  have o1: "1 \<le> r_pageNumber outside_rectangle"
    and o2: "r_pageNumber outside_rectangle \<le> int (length [?blank])"
    by (simp_all add: outside_rectangle_def)
  have h5: "parseColor example_pdflib (color_string \<lparr>color = None\<rparr>) = Inr ()"
    by (rule example_parseColor)
  have h6: "int (length [?blank]) < r_pageNumber page2_rectangle"
    by (simp add: page2_rectangle_def)
  have h7: "applyEach example_pdflib [?blank] [wide_rectangle, outside_rectangle]
      \<lparr>color = None\<rparr> = Inr [?two]"
    by (rule example_two)
  have h8: "pdf_save example_pdflib [?two] = Inr ''%PDFRR''"
    by (rule example_save_two)
  from w1 w2 h5 h6 have c1: "applyRedactions example_pdflib ''redaction_0_k3j9x0q1z''
     ([wide_rectangle] @ page2_rectangle # [outside_rectangle]) \<lparr>color = None\<rparr>
     1000 2000 3000 example_cache =
     (Inl (Error (''Page '' @ int_toString (r_pageNumber page2_rectangle) @ '' not found'')),
      example_cache)"
    by (intro mp [OF T7] conjI h1 h2) simp_all
  have "\<exists>doc'. applyEach example_pdflib [?blank] [wide_rectangle, outside_rectangle]
             \<lparr>color = None\<rparr> = Inr doc' \<and> length doc' = length [?blank] \<and>
       (\<forall>i<length [?blank].
          pg_ops (doc' ! i) =
            pg_ops ([?blank] ! i) @
            map (drawn_rectangle () ([?blank] ! i))
              (filter (\<lambda>r. r_pageNumber r = int i + 1) [wide_rectangle, outside_rectangle]))"
    using w1 w2 o1 o2 h5 by (intro mp [OF T8]) simp
  then obtain doc' where
    d1: "applyEach example_pdflib [?blank] [wide_rectangle, outside_rectangle]
             \<lparr>color = None\<rparr> = Inr doc'"
    and d2: "length doc' = length [?blank]"
    and d3: "\<forall>i<length [?blank].
          pg_ops (doc' ! i) =
            pg_ops ([?blank] ! i) @
            map (drawn_rectangle () ([?blank] ! i))
              (filter (\<lambda>r. r_pageNumber r = int i + 1) [wide_rectangle, outside_rectangle])"
    by (elim exE conjE)
  from d3 have "pg_ops (doc' ! 0) =
             [drawn_rectangle () ?blank wide_rectangle,
              drawn_rectangle () ?blank outside_rectangle]"
    by (simp add: wide_rectangle_def outside_rectangle_def)
  with d1 d2 have c2: "\<exists>doc'. applyEach example_pdflib [?blank]
             [wide_rectangle, outside_rectangle] \<lparr>color = None\<rparr> = Inr doc' \<and>
           length doc' = 1 \<and>
           pg_ops (doc' ! 0) =
             [drawn_rectangle () ?blank wide_rectangle,
              drawn_rectangle () ?blank outside_rectangle]"
    by (intro exI [of _ doc']) simp
  have c3: "applyRedactions example_pdflib ''redaction_0_k3j9x0q1z''
     [wide_rectangle, outside_rectangle] \<lparr>color = None\<rparr> 1000 2000 3000 example_cache =
     (Inr \<lparr>redactedPdfBase64 = toString_base64 ''%PDFRR'',
           originalSize = length (pdfBuffer example_session),
           redactedSize = length ''%PDFRR'',
           processingTime = int 3000 - int 1000\<rparr>,
      cache_set example_cache ''redaction_0_k3j9x0q1z''
        (example_session\<lparr>redactions := [wide_rectangle, outside_rectangle],
           redactedAt := Some 2000\<rparr>) 2000)"
    by (intro mp [OF T9] conjI h1 h2 h7 h8)
  from h1 h2 w1 w2 o1 o2 h5 h6 c1 c2 h7 h8 c3 show ?thesis by (intro conjI)
qed

subsection \<open>Expiry\<close>

lemma prepare_stores:
  assumes "preparePDFForRedaction L download plat bucket file rnd p0 p1 p2 c0 = (Inr pr, c1)"
  shows "\<exists>sd. c1 = cache_set c0 (pr_sessionId pr) sd p1"
proof -
  obtain buf where d: "download bucket file = Inr (Some buf)"
    using assms
    by (cases "download bucket file"; cases "projr (download bucket file)")
       (simp_all add: preparePDFForRedaction_def)
  obtain doc where ld: "PDFDocument_load L buf = Inr doc"
    using assms d
    by (cases "PDFDocument_load L buf") (simp_all add: preparePDFForRedaction_def)
  from assms d ld have "c1 = snd (preparePDFForRedaction L download plat bucket file rnd p0 p1 p2 c0)"
    and "pr_sessionId pr = generateSessionId p0 rnd"
    by (auto simp add: preparePDFForRedaction_def Let_def simp del: number_toString.simps)
  with d ld show ?thesis
    by (simp add: preparePDFForRedaction_def Let_def del: number_toString.simps) (rule exI, rule refl)
qed

text \<open>
  C7, as the code has it. The hour runs from the last time the session was stored:
  \<open>preparePDFForRedaction\<close> and a successful \<open>applyRedactions\<close> store it, at their
  clock reading \<open>t1\<close>. For a session stored at \<open>ts\<close>, an apply entered later than
  \<open>ts + 3600000\<close> milliseconds returns the error \<open>Redaction session not found or
  expired\<close> as a value and drops the key; an apply entered no later than that finds the
  session, and succeeds when the document decodes, every rectangle applies and the
  document encodes. Reading the session with \<open>getSessionDetails\<close> leaves the cache, and
  so the expiry instant, as it was.
\<close>

theorem expiry_counts_from_last_store:
  "(ts + 3600000 < t0 \<longrightarrow>
      applyRedactions L sid reds opts t0 t1 t2 (cache_set c0 sid sd ts) =
        (Inl (Error ''Redaction session not found or expired''),
         (cache_set c0 sid sd ts)(sid := None))) \<and>
   (t0 \<le> ts + 3600000 \<and> PDFDocument_load L (pdfBuffer sd) = Inr doc \<and>
    applyEach L doc reds opts = Inr doc' \<and> pdf_save L doc' = Inr bytes \<longrightarrow>
      applyRedactions L sid reds opts t0 t1 t2 (cache_set c0 sid sd ts) =
        (Inr \<lparr>redactedPdfBase64 = toString_base64 bytes,
              originalSize = length (pdfBuffer sd),
              redactedSize = length bytes,
              processingTime = int t2 - int t0\<rparr>,
         cache_set (cache_set c0 sid sd ts) sid
           (sd\<lparr>redactions := reds, redactedAt := Some t1\<rparr>) t1)) \<and>
   (t \<le> ts + 3600000 \<longrightarrow>
      getSessionDetails sid t (cache_set c0 sid sd ts) =
        (Inr \<lparr>det_fileName = fileName sd, det_bucketName = bucketName sd,
              det_platform = platform sd, det_pageCount = pageCount sd,
              det_createdAt = createdAt sd, det_redactionCount = length (redactions sd),
              det_redactedAt = redactedAt sd\<rparr>,
         cache_set c0 sid sd ts)) \<and>
   (preparePDFForRedaction L download plat bucket file rnd p0 p1 p2 c0 = (Inr pr, c1) \<longrightarrow>
      (\<exists>sd0. c1 = cache_set c0 (pr_sessionId pr) sd0 p1))"
proof (intro conjI impI)
  assume "ts + 3600000 < t0"
  then have "cache_get (cache_set c0 sid sd ts) sid t0 =
      (None, (cache_set c0 sid sd ts)(sid := None))"
    by (simp add: cache_get_stored)
  then show "applyRedactions L sid reds opts t0 t1 t2 (cache_set c0 sid sd ts) =
        (Inl (Error ''Redaction session not found or expired''),
         (cache_set c0 sid sd ts)(sid := None))"
    by (rule applyRedactions_missing)
next
  assume a: "t0 \<le> ts + 3600000 \<and> PDFDocument_load L (pdfBuffer sd) = Inr doc \<and>
    applyEach L doc reds opts = Inr doc' \<and> pdf_save L doc' = Inr bytes"
  then have g: "cache_get (cache_set c0 sid sd ts) sid t0 = (Some sd, cache_set c0 sid sd ts)"
    by (simp add: cache_get_stored)
  from a show "applyRedactions L sid reds opts t0 t1 t2 (cache_set c0 sid sd ts) =
        (Inr \<lparr>redactedPdfBase64 = toString_base64 bytes,
              originalSize = length (pdfBuffer sd),
              redactedSize = length bytes,
              processingTime = int t2 - int t0\<rparr>,
         cache_set (cache_set c0 sid sd ts) sid
           (sd\<lparr>redactions := reds, redactedAt := Some t1\<rparr>) t1)"
    by (simp add: applyRedactions_found [OF g] del: applyEach.simps)
next
  assume "t \<le> ts + 3600000"
  then show "getSessionDetails sid t (cache_set c0 sid sd ts) =
        (Inr \<lparr>det_fileName = fileName sd, det_bucketName = bucketName sd,
              det_platform = platform sd, det_pageCount = pageCount sd,
              det_createdAt = createdAt sd, det_redactionCount = length (redactions sd),
              det_redactedAt = redactedAt sd\<rparr>,
         cache_set c0 sid sd ts)"
    by (simp add: getSessionDetails_def cache_get_stored)
next
  assume "preparePDFForRedaction L download plat bucket file rnd p0 p1 p2 c0 = (Inr pr, c1)"
  then show "\<exists>sd0. c1 = cache_set c0 (pr_sessionId pr) sd0 p1"
    by (rule prepare_stores)
qed

text \<open>
  C7 as stated fails: the example session is stored at time 0 and read at minute 30; an
  apply at minute 89, which is 59 minutes after that access, finds it expired.
\<close>

theorem expiry_not_inactivity_counterexample:
  "getSessionDetails ''redaction_0_k3j9x0q1z'' 1800000 example_cache =
     (Inr \<lparr>det_fileName = ''a.pdf'', det_bucketName = ''docs'', det_platform = Some ''gcp'',
           det_pageCount = 1, det_createdAt = 0, det_redactionCount = 0,
           det_redactedAt = None\<rparr>, example_cache) \<and>
   applyRedactions example_pdflib ''redaction_0_k3j9x0q1z'' [wide_rectangle] \<lparr>color = None\<rparr>
     5340000 5340000 5340000 example_cache =
     (Inl (Error ''Redaction session not found or expired''),
      example_cache(''redaction_0_k3j9x0q1z'' := None)) \<and>
   (5340000 :: nat) - 1800000 = 59 * 60 * 1000"
proof -
  have "getSessionDetails ''redaction_0_k3j9x0q1z'' 1800000 example_cache =
     (Inr \<lparr>det_fileName = ''a.pdf'', det_bucketName = ''docs'', det_platform = Some ''gcp'',
           det_pageCount = 1, det_createdAt = 0, det_redactionCount = 0,
           det_redactedAt = None\<rparr>, example_cache)"
    by (simp add: getSessionDetails_def example_get example_session_def)
  moreover have "cache_get example_cache ''redaction_0_k3j9x0q1z'' 5340000 =
      (None, example_cache(''redaction_0_k3j9x0q1z'' := None))"
    by (simp add: cache_get_def cache_check_def example_cache_def)
  then have "applyRedactions example_pdflib ''redaction_0_k3j9x0q1z'' [wide_rectangle]
     \<lparr>color = None\<rparr> 5340000 5340000 5340000 example_cache =
     (Inl (Error ''Redaction session not found or expired''),
      example_cache(''redaction_0_k3j9x0q1z'' := None))"
    by (rule applyRedactions_missing)
  ultimately show ?thesis by simp
qed


lemma example_cache_stored:
  "cache_set Map.empty ''redaction_0_k3j9x0q1z'' example_session 0 = example_cache"
  by (simp add: cache_set_def stdTTL_def example_cache_def)

text \<open>The theorem on the example session: one minute late, at minute 59, and a read at
  minute 30.\<close>

theorem expiry_counts_from_last_store_witness:
  "(0::nat) + 3600000 < 3600001 \<and>
   applyRedactions example_pdflib ''redaction_0_k3j9x0q1z'' [wide_rectangle] \<lparr>color = None\<rparr>
     3600001 3600001 3600001 example_cache =
     (Inl (Error ''Redaction session not found or expired''),
      example_cache(''redaction_0_k3j9x0q1z'' := None)) \<and>
   (3540000::nat) \<le> 0 + 3600000 \<and>
   PDFDocument_load example_pdflib (pdfBuffer example_session) =
     Inr [\<lparr>pg_width = 600, pg_height = 800, pg_ops = []\<rparr>] \<and>
   applyEach example_pdflib [\<lparr>pg_width = 600, pg_height = 800, pg_ops = []\<rparr>]
     [wide_rectangle] \<lparr>color = None\<rparr> =
     Inr [\<lparr>pg_width = 600, pg_height = 800,
           pg_ops = [\<lparr>op_x = 500, op_y = 780, op_width = 200, op_height = 10,
                      op_color = (), op_opacity = 1\<rparr>]\<rparr>] \<and>
   pdf_save example_pdflib
     [\<lparr>pg_width = 600, pg_height = 800,
       pg_ops = [\<lparr>op_x = 500, op_y = 780, op_width = 200, op_height = 10,
                  op_color = (), op_opacity = 1\<rparr>]\<rparr>] = Inr ''%PDFR'' \<and>
   applyRedactions example_pdflib ''redaction_0_k3j9x0q1z'' [wide_rectangle] \<lparr>color = None\<rparr>
     3540000 3540000 3540000 example_cache =
     (Inr \<lparr>redactedPdfBase64 = toString_base64 ''%PDFR'',
           originalSize = length (pdfBuffer example_session),
           redactedSize = length ''%PDFR'',
           processingTime = int 3540000 - int 3540000\<rparr>,
      cache_set example_cache ''redaction_0_k3j9x0q1z''
        (example_session\<lparr>redactions := [wide_rectangle], redactedAt := Some 3540000\<rparr>)
        3540000) \<and>
   (1800000::nat) \<le> 0 + 3600000 \<and>
   snd (getSessionDetails ''redaction_0_k3j9x0q1z'' 1800000 example_cache) = example_cache \<and>
   preparePDFForRedaction example_pdflib example_download (Some ''gcp'')
     ''docs'' ''a.pdf'' ''k3j9x0q1z'' 0 0 0 Map.empty =
   (Inr \<lparr>pr_sessionId = ''redaction_0_k3j9x0q1z'', pr_pageCount = 1,
         pr_pages = pages example_session, pr_originalSize = 8, pr_processingTime = 0\<rparr>,
    example_cache) \<and>
   (\<exists>sd0. example_cache = cache_set Map.empty ''redaction_0_k3j9x0q1z'' sd0 0)"
proof -
  let ?blank = "\<lparr>pg_width = 600, pg_height = 800, pg_ops = []\<rparr> :: unit pdfpage"
  let ?drawn = "\<lparr>pg_width = 600, pg_height = 800,
           pg_ops = [\<lparr>op_x = 500, op_y = 780, op_width = 200, op_height = 10,
                      op_color = (), op_opacity = 1\<rparr>]\<rparr> :: unit pdfpage"
  let ?pr = "\<lparr>pr_sessionId = ''redaction_0_k3j9x0q1z'', pr_pageCount = 1,
         pr_pages = pages example_session, pr_originalSize = 8, pr_processingTime = 0\<rparr>"
  note late = expiry_counts_from_last_store [where ts = 0 and ?t0.0 = 3600001
      and L = example_pdflib and sid = "''redaction_0_k3j9x0q1z''" and reds = "[wide_rectangle]"
      and opts = "\<lparr>color = None\<rparr>" and ?t1.0 = 3600001 and ?t2.0 = 3600001
      and ?c0.0 = Map.empty and sd = example_session, THEN conjunct1, unfolded example_cache_stored]
  note T = expiry_counts_from_last_store [where ts = 0 and ?t0.0 = 3540000
      and L = example_pdflib and sid = "''redaction_0_k3j9x0q1z''" and reds = "[wide_rectangle]"
      and opts = "\<lparr>color = None\<rparr>" and ?t1.0 = 3540000 and ?t2.0 = 3540000
      and ?c0.0 = Map.empty and sd = example_session and doc = "[?blank]" and doc' = "[?drawn]"
      and bytes = "''%PDFR''" and t = 1800000 and download = example_download
      and plat = "Some ''gcp''" and bucket = "''docs''" and ?file = "''a.pdf''"
      and rnd = "''k3j9x0q1z''" and ?p0.0 = 0 and ?p1.0 = 0 and ?p2.0 = 0 and pr = ?pr
      and ?c1.0 = example_cache, unfolded example_cache_stored]
  note soon = T [THEN conjunct2, THEN conjunct1]
  note read = T [THEN conjunct2, THEN conjunct2, THEN conjunct1]
  note prep = T [THEN conjunct2, THEN conjunct2, THEN conjunct2]
  have h0: "(0::nat) + 3600000 < 3600001" by simp
  have h1: "(3540000::nat) \<le> 0 + 3600000" by simp
  have h2: "PDFDocument_load example_pdflib (pdfBuffer example_session) = Inr [?blank]"
    by (simp add: example_session_def example_load)
  have h3: "applyEach example_pdflib [?blank] [wide_rectangle] \<lparr>color = None\<rparr> = Inr [?drawn]"
    by (rule example_wide)
  have h4: "pdf_save example_pdflib [?drawn] = Inr ''%PDFR''"
    by (rule example_save)
  have h5: "(1800000::nat) \<le> 0 + 3600000" by simp
  note h6 = example_cache_prepared
  from late h0 have c0: "applyRedactions example_pdflib ''redaction_0_k3j9x0q1z''
     [wide_rectangle] \<lparr>color = None\<rparr> 3600001 3600001 3600001 example_cache =
     (Inl (Error ''Redaction session not found or expired''),
      example_cache(''redaction_0_k3j9x0q1z'' := None))"
    by (rule mp)
  from soon h1 h2 h3 h4 have c1: "applyRedactions example_pdflib ''redaction_0_k3j9x0q1z''
     [wide_rectangle] \<lparr>color = None\<rparr> 3540000 3540000 3540000 example_cache =
     (Inr \<lparr>redactedPdfBase64 = toString_base64 ''%PDFR'',
           originalSize = length (pdfBuffer example_session),
           redactedSize = length ''%PDFR'',
           processingTime = int 3540000 - int 3540000\<rparr>,
      cache_set example_cache ''redaction_0_k3j9x0q1z''
        (example_session\<lparr>redactions := [wide_rectangle], redactedAt := Some 3540000\<rparr>)
        3540000)"
    by (intro mp [OF soon] conjI)
  from read [rule_format, OF h5]
  have c2: "snd (getSessionDetails ''redaction_0_k3j9x0q1z'' 1800000 example_cache) = example_cache"
    by simp
  from prep [rule_format, OF h6]
  have c3: "\<exists>sd0. example_cache = cache_set Map.empty ''redaction_0_k3j9x0q1z'' sd0 0"
    by simp
  from h0 c0 h1 h2 h3 h4 c1 h5 c2 h6 c3 show ?thesis by (intro conjI)
qed

subsection \<open>Two applies in flight\<close>

lemma applyEach_snoc:
  "applyEach L doc (xs @ [r]) opts =
     (case applyEach L doc xs opts of Inl e \<Rightarrow> Inl e | Inr d \<Rightarrow> applyRedactionToPage L d r opts)"
  by (induction xs arbitrary: doc) (simp_all split: sum.splits)

lemma own_copy_DrawingI:
  assumes "pdfBuffer sd = B" "ac_reds c = done @ rest" "PDFDocument_load L B = Inr doc0"
    "applyEach L doc0 done (ac_opts c) = Inr doc"
  shows "own_copy L B c (Drawing sd doc rest)"
  using assms by (simp del: applyEach.simps)

lemma own_copy_DrawingD:
  assumes "own_copy L B c (Drawing sd doc rest)"
  shows "pdfBuffer sd = B \<and>
         (\<exists>doc0 done. ac_reds c = done @ rest \<and> PDFDocument_load L B = Inr doc0 \<and>
            applyEach L doc0 done (ac_opts c) = Inr doc)"
proof -
  let ?k = "length (ac_reds c) - length rest"
  from assms have b: "pdfBuffer sd = B" and d: "drop ?k (ac_reds c) = rest" by simp_all
  from assms obtain doc0 where l: "PDFDocument_load L B = Inr doc0"
    by (cases "PDFDocument_load L B") simp_all
  with assms have a: "applyEach L doc0 (take ?k (ac_reds c)) (ac_opts c) = Inr doc" by simp
  have "ac_reds c = take ?k (ac_reds c) @ rest"
    using d append_take_drop_id [of ?k "ac_reds c"] by simp
  with b l a show ?thesis
    by (intro conjI exI [of _ doc0] exI [of _ "take ?k (ac_reds c)"])
qed

lemma cache_holds_get:
  assumes "cache_holds sid B cache" "cache_get cache sid t = (r, cache')"
  shows "cache_holds sid B cache' \<and> (\<forall>sd. r = Some sd \<longrightarrow> pdfBuffer sd = B)"
proof (cases "cache sid")
  case None
  with assms show ?thesis by (simp add: cache_get_def cache_holds_def)
next
  case (Some e)
  with assms show ?thesis
    by (cases "cache_check e t") (auto simp add: cache_get_def cache_holds_def)
qed

lemma apply_step_inv:
  assumes own: "own_copy L B c p" and ch: "cache_holds (ac_sid c) B cache"
    and st: "apply_step L c p cache = (p', cache')"
  shows "own_copy L B c p' \<and> cache_holds (ac_sid c) B cache'"
proof (cases p)
  case Start
  obtain r c1 where g: "cache_get cache (ac_sid c) (ac_t0 c) = (r, c1)"
    by (cases "cache_get cache (ac_sid c) (ac_t0 c)")
  from cache_holds_get [OF ch g] have h1: "cache_holds (ac_sid c) B c1"
    and h2: "\<forall>sd. r = Some sd \<longrightarrow> pdfBuffer sd = B" by simp_all
  show ?thesis
  proof (cases r)
    case None
    with st Start g h1 show ?thesis by auto
  next
    case (Some sd)
    with h2 have b: "pdfBuffer sd = B" by simp
    show ?thesis
    proof (cases "PDFDocument_load L B")
      case (Inl e)
      with st Start g Some b h1 show ?thesis by auto
    next
      case (Inr doc0)
      with st Start g Some b have p': "p' = Drawing sd doc0 (ac_reds c)" and c': "cache' = c1"
        by auto
      have "own_copy L B c (Drawing sd doc0 (ac_reds c))"
        by (rule own_copy_DrawingI [of sd B c "[]" _ L doc0]) (simp_all add: b Inr)
      with p' c' h1 show ?thesis by simp
    qed
  qed
next
  case (Drawing sd doc rest)
  from own_copy_DrawingD [OF own [unfolded Drawing]] obtain doc0 "done" where
    b: "pdfBuffer sd = B" and r: "ac_reds c = done @ rest"
    and l: "PDFDocument_load L B = Inr doc0"
    and a: "applyEach L doc0 done (ac_opts c) = Inr doc"
    by (elim exE conjE)
  show ?thesis
  proof (cases rest)
    case Nil
    with r have dn: "done = ac_reds c" by simp
    show ?thesis
    proof (cases "pdf_save L doc")
      case (Inl e)
      with st Drawing Nil ch show ?thesis by auto
    next
      case (Inr bytes)
      with st Drawing Nil have p': "p' = Encoded sd bytes" and c': "cache' = cache" by auto
      from b l a dn Inr have "own_copy L B c (Encoded sd bytes)" by (simp del: applyEach.simps)
      with p' c' ch show ?thesis by simp
    qed
  next
    case (Cons rd rest')
    show ?thesis
    proof (cases "applyRedactionToPage L doc rd (ac_opts c)")
      case (Inl e)
      with st Drawing Cons ch show ?thesis by auto
    next
      case (Inr doc')
      with st Drawing Cons have p': "p' = Drawing sd doc' rest'" and c': "cache' = cache"
        by auto
      have "applyEach L doc0 (done @ [rd]) (ac_opts c) = Inr doc'"
        by (simp add: applyEach_snoc a Inr del: applyEach.simps)
      moreover from r Cons have "ac_reds c = (done @ [rd]) @ rest'" by simp
      ultimately have "own_copy L B c (Drawing sd doc' rest')"
        using b l by (intro own_copy_DrawingI [of sd B c "done @ [rd]" rest' L doc0 doc'])
      with p' c' ch show ?thesis by simp
    qed
  qed
next
  case (Encoded sd bytes)
  from own Encoded have b: "pdfBuffer sd = B" by simp
  from st Encoded have p': "p' = Finished (Inr \<lparr>redactedPdfBase64 = toString_base64 bytes,
                          originalSize = length (pdfBuffer sd),
                          redactedSize = length bytes,
                          processingTime = int (ac_t2 c) - int (ac_t0 c)\<rparr>)"
    and c': "cache' = cache_set cache (ac_sid c)
                (sd\<lparr>redactions := ac_reds c, redactedAt := Some (ac_t1 c)\<rparr>) (ac_t1 c)"
    by (simp_all add: Let_def)
  from own Encoded obtain doc0 where l: "PDFDocument_load L B = Inr doc0"
    by (cases "PDFDocument_load L B") simp_all
  from own Encoded l obtain doc' where a: "applyEach L doc0 (ac_reds c) (ac_opts c) = Inr doc'"
    by (cases "applyEach L doc0 (ac_reds c) (ac_opts c)") (simp_all del: applyEach.simps)
  from own Encoded l a have sv: "pdf_save L doc' = Inr bytes" by (simp del: applyEach.simps)
  have "own_copy L B c p'"
    unfolding p' by (simp add: l a sv del: applyEach.simps)
  moreover have "cache_holds (ac_sid c) B cache'"
    by (simp add: c' cache_holds_def cache_set_def b)
  ultimately show ?thesis by simp
next
  case (Finished r)
  with st own ch show ?thesis by auto
qed


lemma interleave_inv:
  assumes "ac_sid a = sid" "ac_sid b = sid"
    and "own_copy L B a pa" "own_copy L B b pb" "cache_holds sid B cache"
    and "interleave L a b sched (pa, pb, cache) = (pa', pb', cache')"
  shows "own_copy L B a pa' \<and> own_copy L B b pb' \<and> cache_holds sid B cache'"
  using assms
proof (induction sched arbitrary: pa pb cache)
  case Nil
  then show ?case by simp
next
  case (Cons second sched)
  show ?case
  proof (cases second)
    case True
    obtain p1 c1 where st: "apply_step L b pb cache = (p1, c1)"
      by (cases "apply_step L b pb cache")
    from apply_step_inv [OF Cons.prems(4) _ st] Cons.prems(2,5)
    have i: "own_copy L B b p1" "cache_holds sid B c1" by simp_all
    from Cons.prems(6) True st have "interleave L a b sched (pa, p1, c1) = (pa', pb', cache')"
      by simp
    from Cons.IH [OF Cons.prems(1,2,3) i this] show ?thesis .
  next
    case False
    obtain p1 c1 where st: "apply_step L a pa cache = (p1, c1)"
      by (cases "apply_step L a pa cache")
    from apply_step_inv [OF Cons.prems(3) _ st] Cons.prems(1,5)
    have i: "own_copy L B a p1" "cache_holds sid B c1" by simp_all
    from Cons.prems(6) False st have "interleave L a b sched (p1, pb, c1) = (pa', pb', cache')"
      by simp
    from Cons.IH [OF Cons.prems(1,2) i(1) Cons.prems(4) i(2) this] show ?thesis .
  qed
qed

lemma own_copy_FinishedD:
  assumes "own_copy L B c (Finished (Inr res))"
  shows "\<exists>doc d bytes. PDFDocument_load L B = Inr doc \<and>
           applyEach L doc (ac_reds c) (ac_opts c) = Inr d \<and> pdf_save L d = Inr bytes \<and>
           redactedPdfBase64 res = toString_base64 bytes \<and> length d = length doc \<and>
           (\<exists>col. \<forall>i<length doc.
              pg_ops (d ! i) =
                pg_ops (doc ! i) @
                map (drawn_rectangle col (doc ! i))
                  (filter (\<lambda>r. r_pageNumber r = int i + 1) (ac_reds c)))"
proof -
  from assms obtain doc where l: "PDFDocument_load L B = Inr doc"
    by (cases "PDFDocument_load L B") simp_all
  from assms l obtain d where a: "applyEach L doc (ac_reds c) (ac_opts c) = Inr d"
    by (cases "applyEach L doc (ac_reds c) (ac_opts c)") (simp_all del: applyEach.simps)
  from assms l a obtain bytes where sv: "pdf_save L d = Inr bytes"
    by (cases "pdf_save L d") (simp_all del: applyEach.simps)
  from assms l a sv have r: "redactedPdfBase64 res = toString_base64 bytes"
    by (simp del: applyEach.simps)
  from applyEach_ops [OF a] obtain col where
    len: "length d = length doc"
    and ops: "\<forall>i<length doc.
             pg_width (d ! i) = pg_width (doc ! i) \<and>
             pg_height (d ! i) = pg_height (doc ! i) \<and>
             pg_ops (d ! i) =
               pg_ops (doc ! i) @
               map (drawn_rectangle col (doc ! i))
                 (filter (\<lambda>r. r_pageNumber r = int i + 1) (ac_reds c))"
    by (elim exE conjE)
  have "\<exists>col. \<forall>i<length doc.
              pg_ops (d ! i) =
                pg_ops (doc ! i) @
                map (drawn_rectangle col (doc ! i))
                  (filter (\<lambda>r. r_pageNumber r = int i + 1) (ac_reds c))"
    using ops by (intro exI [of _ col]) simp
  with l a sv r len show ?thesis
    by (intro exI [of _ doc] exI [of _ d] exI [of _ bytes] conjI)
qed

lemma interleave_finished:
  "interleave L a b (replicate n False) (Finished r, pb, cache) = (Finished r, pb, cache)"
  by (induction n) simp_all

lemma interleave_step_a:
  "interleave L a b (replicate (Suc n) False) (pa, pb, cache) =
     (case apply_step L a pa cache of
        (pa', cache') \<Rightarrow> interleave L a b (replicate n False) (pa', pb, cache'))"
  by simp

lemma drawing_run:
  "interleave L a b (replicate (Suc (Suc (length rest))) False) (Drawing sd doc rest, pb, cache) =
     (case applyEach L doc rest (ac_opts a) of
        Inl e \<Rightarrow> (Finished (Inl e), pb, cache)
      | Inr doc' \<Rightarrow>
          (case pdf_save L doc' of
             Inl e \<Rightarrow> (Finished (Inl e), pb, cache)
           | Inr bytes \<Rightarrow>
               (Finished (Inr \<lparr>redactedPdfBase64 = toString_base64 bytes,
                          originalSize = length (pdfBuffer sd),
                          redactedSize = length bytes,
                          processingTime = int (ac_t2 a) - int (ac_t0 a)\<rparr>),
                pb,
                cache_set cache (ac_sid a)
                  (sd\<lparr>redactions := ac_reds a, redactedAt := Some (ac_t1 a)\<rparr>) (ac_t1 a))))"
proof (induction rest arbitrary: doc)
  case Nil
  show ?case
    by (cases "pdf_save L doc") (simp_all add: Let_def)
next
  case (Cons rd rest)
  have step: "interleave L a b (replicate (Suc (Suc (length (rd # rest)))) False)
      (Drawing sd doc (rd # rest), pb, cache) =
     (case apply_step L a (Drawing sd doc (rd # rest)) cache of
        (pa', cache') \<Rightarrow>
          interleave L a b (replicate (Suc (Suc (length rest))) False) (pa', pb, cache'))"
    using interleave_step_a [of L a b "Suc (Suc (length rest))"] by simp
  show ?case
  proof (cases "applyRedactionToPage L doc rd (ac_opts a)")
    case (Inl e)
    then show ?thesis
      unfolding step by (simp add: interleave_finished del: replicate_Suc)
  next
    case (Inr doc')
    then show ?thesis
      unfolding step by (simp add: Cons.IH del: replicate_Suc)
  qed
qed

lemma run_alone:
  "interleave L a b (replicate (length (ac_reds a) + 3) False) (Start, pb, cache) =
     (Finished (fst (applyRedactions L (ac_sid a) (ac_reds a) (ac_opts a) (ac_t0 a) (ac_t1 a)
                       (ac_t2 a) cache)),
      pb,
      snd (applyRedactions L (ac_sid a) (ac_reds a) (ac_opts a) (ac_t0 a) (ac_t1 a)
             (ac_t2 a) cache))"
proof -
  have n: "length (ac_reds a) + 3 = Suc (Suc (Suc (length (ac_reds a))))" by simp
  have step: "interleave L a b (replicate (Suc (Suc (Suc (length (ac_reds a))))) False)
      (Start, pb, cache) =
     (case apply_step L a Start cache of
        (pa', cache') \<Rightarrow>
          interleave L a b (replicate (Suc (Suc (length (ac_reds a)))) False) (pa', pb, cache'))"
    by (rule interleave_step_a)
  obtain r c1 where g: "cache_get cache (ac_sid a) (ac_t0 a) = (r, c1)"
    by (cases "cache_get cache (ac_sid a) (ac_t0 a)")
  show ?thesis
  proof (cases r)
    case None
    with g show ?thesis
      unfolding n step
      by (simp add: applyRedactions_missing interleave_finished del: replicate_Suc)
  next
    case (Some sd)
    with g have c1: "c1 = cache" using cache_get_Some [of cache "ac_sid a" "ac_t0 a" sd c1] by simp
    from g Some c1 have g': "cache_get cache (ac_sid a) (ac_t0 a) = (Some sd, cache)" by simp
    show ?thesis
    proof (cases "PDFDocument_load L (pdfBuffer sd)")
      case (Inl e)
      with g' show ?thesis
        unfolding n step
        by (simp add: applyRedactions_found [OF g'] interleave_finished del: replicate_Suc)
    next
      case (Inr doc)
      with g' show ?thesis
        unfolding n step
        by (simp add: applyRedactions_found [OF g'] drawing_run
            del: applyEach.simps replicate_Suc split: sum.splits)
    qed
  qed
qed


lemma example_interleaved:
  "interleave example_pdflib example_call_a example_call_b [False, True]
     (Start, Start, example_cache) =
     (Drawing example_session [\<lparr>pg_width = 600, pg_height = 800, pg_ops = []\<rparr>]
        [wide_rectangle],
      Drawing example_session [\<lparr>pg_width = 600, pg_height = 800, pg_ops = []\<rparr>]
        [outside_rectangle],
      example_cache)"
  "interleave example_pdflib example_call_a example_call_b [True, True, True]
     (Drawing example_session [\<lparr>pg_width = 600, pg_height = 800, pg_ops = []\<rparr>]
        [wide_rectangle],
      Drawing example_session [\<lparr>pg_width = 600, pg_height = 800, pg_ops = []\<rparr>]
        [outside_rectangle],
      example_cache) =
     (Drawing example_session [\<lparr>pg_width = 600, pg_height = 800, pg_ops = []\<rparr>]
        [wide_rectangle],
      Finished (Inr \<lparr>redactedPdfBase64 = ''JVBERlI='', originalSize = 8, redactedSize = 5,
                     processingTime = 2001\<rparr>),
      cache_set example_cache ''redaction_0_k3j9x0q1z''
        (example_session\<lparr>redactions := [outside_rectangle], redactedAt := Some 4000\<rparr>) 4000)"
  "interleave example_pdflib example_call_a example_call_b [False, False, False]
     (Drawing example_session [\<lparr>pg_width = 600, pg_height = 800, pg_ops = []\<rparr>]
        [wide_rectangle],
      pb, c) =
     (Finished (Inr \<lparr>redactedPdfBase64 = ''JVBERlI='', originalSize = 8, redactedSize = 5,
                     processingTime = 4001\<rparr>),
      pb,
      cache_set c ''redaction_0_k3j9x0q1z''
        (example_session\<lparr>redactions := [wide_rectangle], redactedAt := Some 5000\<rparr>) 5000)"
proof -
  have g: "cache_get example_cache ''redaction_0_k3j9x0q1z'' 1000 =
      (Some example_session, example_cache)"
    "cache_get example_cache ''redaction_0_k3j9x0q1z'' 2000 =
      (Some example_session, example_cache)"
    by (simp_all add: example_get)
  have l: "PDFDocument_load example_pdflib (pdfBuffer example_session) =
      Inr [\<lparr>pg_width = 600, pg_height = 800, pg_ops = []\<rparr>]"
    by (simp add: example_session_def example_load)
  have b: "pdfBuffer example_session = ''%PDF-1.7''" by (simp add: example_session_def)
  have dw: "applyRedactionToPage example_pdflib
      [\<lparr>pg_width = 600, pg_height = 800, pg_ops = []\<rparr>] wide_rectangle \<lparr>color = None\<rparr> =
      Inr [\<lparr>pg_width = 600, pg_height = 800,
         pg_ops = [\<lparr>op_x = 500, op_y = 780, op_width = 200, op_height = 10,
                    op_color = (), op_opacity = 1\<rparr>]\<rparr>]"
    by (simp add: applyRedactionToPage_def example_parseColor wide_rectangle_def
      drawRectangle_def drawn_rectangle_def convertCoordinate_def)
  have dz: "applyRedactionToPage example_pdflib
      [\<lparr>pg_width = 600, pg_height = 800, pg_ops = []\<rparr>] outside_rectangle \<lparr>color = None\<rparr> =
      Inr [\<lparr>pg_width = 600, pg_height = 800,
         pg_ops = [\<lparr>op_x = 700, op_y = 780, op_width = 10, op_height = 10,
                    op_color = (), op_opacity = 1\<rparr>]\<rparr>]"
    by (simp add: applyRedactionToPage_def example_parseColor outside_rectangle_def
      drawRectangle_def drawn_rectangle_def convertCoordinate_def)
  show "interleave example_pdflib example_call_a example_call_b [False, True]
     (Start, Start, example_cache) =
     (Drawing example_session [\<lparr>pg_width = 600, pg_height = 800, pg_ops = []\<rparr>]
        [wide_rectangle],
      Drawing example_session [\<lparr>pg_width = 600, pg_height = 800, pg_ops = []\<rparr>]
        [outside_rectangle],
      example_cache)"
    by (simp add: example_call_a_def example_call_b_def g l)
  show "interleave example_pdflib example_call_a example_call_b [True, True, True]
     (Drawing example_session [\<lparr>pg_width = 600, pg_height = 800, pg_ops = []\<rparr>]
        [wide_rectangle],
      Drawing example_session [\<lparr>pg_width = 600, pg_height = 800, pg_ops = []\<rparr>]
        [outside_rectangle],
      example_cache) =
     (Drawing example_session [\<lparr>pg_width = 600, pg_height = 800, pg_ops = []\<rparr>]
        [wide_rectangle],
      Finished (Inr \<lparr>redactedPdfBase64 = ''JVBERlI='', originalSize = 8, redactedSize = 5,
                     processingTime = 2001\<rparr>),
      cache_set example_cache ''redaction_0_k3j9x0q1z''
        (example_session\<lparr>redactions := [outside_rectangle], redactedAt := Some 4000\<rparr>) 4000)"
    by (simp add: example_call_b_def dz example_save b64_example b64_char_def b Let_def)
  show "interleave example_pdflib example_call_a example_call_b [False, False, False]
     (Drawing example_session [\<lparr>pg_width = 600, pg_height = 800, pg_ops = []\<rparr>]
        [wide_rectangle],
      pb, c) =
     (Finished (Inr \<lparr>redactedPdfBase64 = ''JVBERlI='', originalSize = 8, redactedSize = 5,
                     processingTime = 4001\<rparr>),
      pb,
      cache_set c ''redaction_0_k3j9x0q1z''
        (example_session\<lparr>redactions := [wide_rectangle], redactedAt := Some 5000\<rparr>) 5000)"
    by (simp add: example_call_a_def dw example_save b64_example b64_char_def b Let_def)
qed

lemma interleave_append:
  "interleave L a b (s1 @ s2) st = interleave L a b s2 (interleave L a b s1 st)"
proof (induction s1 arbitrary: st)
  case Nil
  show ?case by simp
next
  case (Cons x s1)
  obtain pa pb c where st: "st = (pa, pb, c)" by (cases st)
  show ?case
    unfolding st using Cons.IH by (cases x) (simp_all split: prod.splits)
qed

text \<open>
  C9 as stated fails: the two calls are not serialized. On the example session, call
  \<open>a\<close> enters and reaches its first await, call \<open>b\<close> enters while \<open>a\<close> is in
  flight, runs to its end and returns its document, and \<open>a\<close> then finishes too. The
  second caller neither waits for the first nor is refused.
\<close>

theorem concurrent_apply_counterexample:
  "interleave example_pdflib example_call_a example_call_b [False, True]
     (Start, Start, example_cache) =
     (Drawing example_session [\<lparr>pg_width = 600, pg_height = 800, pg_ops = []\<rparr>]
        [wide_rectangle],
      Drawing example_session [\<lparr>pg_width = 600, pg_height = 800, pg_ops = []\<rparr>]
        [outside_rectangle],
      example_cache) \<and>
   interleave example_pdflib example_call_a example_call_b [False, True, True, True, True]
     (Start, Start, example_cache) =
     (Drawing example_session [\<lparr>pg_width = 600, pg_height = 800, pg_ops = []\<rparr>]
        [wide_rectangle],
      Finished (Inr \<lparr>redactedPdfBase64 = ''JVBERlI='', originalSize = 8, redactedSize = 5,
                     processingTime = 2001\<rparr>),
      cache_set example_cache ''redaction_0_k3j9x0q1z''
        (example_session\<lparr>redactions := [outside_rectangle], redactedAt := Some 4000\<rparr>) 4000) \<and>
   interleave example_pdflib example_call_a example_call_b
     [False, True, True, True, True, False, False, False]
     (Start, Start, example_cache) =
     (Finished (Inr \<lparr>redactedPdfBase64 = ''JVBERlI='', originalSize = 8, redactedSize = 5,
                     processingTime = 4001\<rparr>),
      Finished (Inr \<lparr>redactedPdfBase64 = ''JVBERlI='', originalSize = 8, redactedSize = 5,
                     processingTime = 2001\<rparr>),
      cache_set
        (cache_set example_cache ''redaction_0_k3j9x0q1z''
           (example_session\<lparr>redactions := [outside_rectangle], redactedAt := Some 4000\<rparr>) 4000)
        ''redaction_0_k3j9x0q1z''
        (example_session\<lparr>redactions := [wide_rectangle], redactedAt := Some 5000\<rparr>) 5000)"
proof -
  have s5: "[False, True, True, True, True] = [False, True] @ [True, True, True]" by simp
  have s8: "[False, True, True, True, True, False, False, False] =
      [False, True] @ [True, True, True] @ [False, False, False]" by simp
  show ?thesis
    unfolding s5 s8 interleave_append example_interleaved
    by (intro conjI refl)
qed


text \<open>
  C9, as the code has it. Two concurrent applies on the same session are not
  serialized: the step of a call is taken whenever the event loop resumes it, whatever
  the phase of the other call, and a call resumed without interruption is
  \<open>applyRedactions\<close>. Each call draws on its own decoding of the stored bytes: in every
  interleaving of two calls on a session that is stored, a call that returns
  successfully returns the encoding of the stored document on which each page has gained
  exactly the rectangles of that call, never a mixture of both sets, and the session in
  the cache still has the stored bytes.
\<close>

theorem concurrent_apply_own_copies:
  assumes "ac_sid a = sid" and "ac_sid b = sid" and "cache sid = Some e"
    and "interleave L a b sched (Start, Start, cache) = (pa, pb, cache')"
  shows "(\<forall>ra. pa = Finished (Inr ra) \<longrightarrow>
            (\<exists>doc d bytes. PDFDocument_load L (pdfBuffer (ce_v e)) = Inr doc \<and>
               applyEach L doc (ac_reds a) (ac_opts a) = Inr d \<and> pdf_save L d = Inr bytes \<and>
               redactedPdfBase64 ra = toString_base64 bytes \<and> length d = length doc \<and>
               (\<exists>col. \<forall>i<length doc.
                  pg_ops (d ! i) =
                    pg_ops (doc ! i) @
                    map (drawn_rectangle col (doc ! i))
                      (filter (\<lambda>r. r_pageNumber r = int i + 1) (ac_reds a))))) \<and>
         (\<forall>rb. pb = Finished (Inr rb) \<longrightarrow>
            (\<exists>doc d bytes. PDFDocument_load L (pdfBuffer (ce_v e)) = Inr doc \<and>
               applyEach L doc (ac_reds b) (ac_opts b) = Inr d \<and> pdf_save L d = Inr bytes \<and>
               redactedPdfBase64 rb = toString_base64 bytes \<and> length d = length doc \<and>
               (\<exists>col. \<forall>i<length doc.
                  pg_ops (d ! i) =
                    pg_ops (doc ! i) @
                    map (drawn_rectangle col (doc ! i))
                      (filter (\<lambda>r. r_pageNumber r = int i + 1) (ac_reds b))))) \<and>
         cache_holds sid (pdfBuffer (ce_v e)) cache' \<and>
         interleave L a b (True # later) (qa, qb, c) =
           interleave L a b later (qa, fst (apply_step L b qb c), snd (apply_step L b qb c)) \<and>
         interleave L a b (False # later) (qa, qb, c) =
           interleave L a b later (fst (apply_step L a qa c), qb, snd (apply_step L a qa c)) \<and>
         interleave L a b (replicate (length (ac_reds a) + 3) False) (Start, qb, c) =
           (Finished (fst (applyRedactions L (ac_sid a) (ac_reds a) (ac_opts a) (ac_t0 a)
                             (ac_t1 a) (ac_t2 a) c)),
            qb,
            snd (applyRedactions L (ac_sid a) (ac_reds a) (ac_opts a) (ac_t0 a) (ac_t1 a)
                   (ac_t2 a) c))"
proof -
  let ?B = "pdfBuffer (ce_v e)"
  have ch: "cache_holds sid ?B cache" by (simp add: cache_holds_def assms(3))
  have "own_copy L ?B a Start" "own_copy L ?B b Start" by simp_all
  from interleave_inv [OF assms(1,2) this ch assms(4)]
  have ia: "own_copy L ?B a pa" and ib: "own_copy L ?B b pb" and ic: "cache_holds sid ?B cache'"
    by simp_all
  have A: "\<forall>ra. pa = Finished (Inr ra) \<longrightarrow>
            (\<exists>doc d bytes. PDFDocument_load L ?B = Inr doc \<and>
               applyEach L doc (ac_reds a) (ac_opts a) = Inr d \<and> pdf_save L d = Inr bytes \<and>
               redactedPdfBase64 ra = toString_base64 bytes \<and> length d = length doc \<and>
               (\<exists>col. \<forall>i<length doc.
                  pg_ops (d ! i) =
                    pg_ops (doc ! i) @
                    map (drawn_rectangle col (doc ! i))
                      (filter (\<lambda>r. r_pageNumber r = int i + 1) (ac_reds a))))"
  proof (intro allI impI)
    fix ra assume "pa = Finished (Inr ra)"
    with ia have "own_copy L ?B a (Finished (Inr ra))" by simp
    then show "\<exists>doc d bytes. PDFDocument_load L ?B = Inr doc \<and>
               applyEach L doc (ac_reds a) (ac_opts a) = Inr d \<and> pdf_save L d = Inr bytes \<and>
               redactedPdfBase64 ra = toString_base64 bytes \<and> length d = length doc \<and>
               (\<exists>col. \<forall>i<length doc.
                  pg_ops (d ! i) =
                    pg_ops (doc ! i) @
                    map (drawn_rectangle col (doc ! i))
                      (filter (\<lambda>r. r_pageNumber r = int i + 1) (ac_reds a)))"
      by (rule own_copy_FinishedD)
  qed
  have B: "\<forall>rb. pb = Finished (Inr rb) \<longrightarrow>
            (\<exists>doc d bytes. PDFDocument_load L ?B = Inr doc \<and>
               applyEach L doc (ac_reds b) (ac_opts b) = Inr d \<and> pdf_save L d = Inr bytes \<and>
               redactedPdfBase64 rb = toString_base64 bytes \<and> length d = length doc \<and>
               (\<exists>col. \<forall>i<length doc.
                  pg_ops (d ! i) =
                    pg_ops (doc ! i) @
                    map (drawn_rectangle col (doc ! i))
                      (filter (\<lambda>r. r_pageNumber r = int i + 1) (ac_reds b))))"
  proof (intro allI impI)
    fix rb assume "pb = Finished (Inr rb)"
    with ib have "own_copy L ?B b (Finished (Inr rb))" by simp
    then show "\<exists>doc d bytes. PDFDocument_load L ?B = Inr doc \<and>
               applyEach L doc (ac_reds b) (ac_opts b) = Inr d \<and> pdf_save L d = Inr bytes \<and>
               redactedPdfBase64 rb = toString_base64 bytes \<and> length d = length doc \<and>
               (\<exists>col. \<forall>i<length doc.
                  pg_ops (d ! i) =
                    pg_ops (doc ! i) @
                    map (drawn_rectangle col (doc ! i))
                      (filter (\<lambda>r. r_pageNumber r = int i + 1) (ac_reds b)))"
      by (rule own_copy_FinishedD)
  qed
  have S1: "interleave L a b (True # later) (qa, qb, c) =
           interleave L a b later (qa, fst (apply_step L b qb c), snd (apply_step L b qb c))"
    by (simp split: prod.splits)
  have S2: "interleave L a b (False # later) (qa, qb, c) =
           interleave L a b later (fst (apply_step L a qa c), qb, snd (apply_step L a qa c))"
    by (simp split: prod.splits)
  note R = run_alone [of L a b qb c]
  from A B ic S1 S2 R show ?thesis by (intro conjI)
qed

text \<open>The theorem on the example session, in the interleaving where \<open>b\<close> runs from its
  entry to its end while \<open>a\<close> is in flight.\<close>

theorem concurrent_apply_own_copies_witness:
  "ac_sid example_call_a = ''redaction_0_k3j9x0q1z'' \<and>
   ac_sid example_call_b = ''redaction_0_k3j9x0q1z'' \<and>
   example_cache ''redaction_0_k3j9x0q1z'' = Some \<lparr>ce_t = 3600000, ce_v = example_session\<rparr> \<and>
   interleave example_pdflib example_call_a example_call_b
     [False, True, True, True, True, False, False, False]
     (Start, Start, example_cache) =
     (Finished (Inr \<lparr>redactedPdfBase64 = ''JVBERlI='', originalSize = 8, redactedSize = 5,
                     processingTime = 4001\<rparr>),
      Finished (Inr \<lparr>redactedPdfBase64 = ''JVBERlI='', originalSize = 8, redactedSize = 5,
                     processingTime = 2001\<rparr>),
      cache_set
        (cache_set example_cache ''redaction_0_k3j9x0q1z''
           (example_session\<lparr>redactions := [outside_rectangle], redactedAt := Some 4000\<rparr>) 4000)
        ''redaction_0_k3j9x0q1z''
        (example_session\<lparr>redactions := [wide_rectangle], redactedAt := Some 5000\<rparr>) 5000) \<and>
   (\<exists>d bytes. applyEach example_pdflib [\<lparr>pg_width = 600, pg_height = 800, pg_ops = []\<rparr>]
        [wide_rectangle] \<lparr>color = None\<rparr> = Inr d \<and>
      pdf_save example_pdflib d = Inr bytes \<and> ''JVBERlI='' = toString_base64 bytes \<and>
      length (pg_ops (d ! 0)) = 1) \<and>
   (\<exists>d bytes. applyEach example_pdflib [\<lparr>pg_width = 600, pg_height = 800, pg_ops = []\<rparr>]
        [outside_rectangle] \<lparr>color = None\<rparr> = Inr d \<and>
      pdf_save example_pdflib d = Inr bytes \<and> ''JVBERlI='' = toString_base64 bytes \<and>
      length (pg_ops (d ! 0)) = 1)"
proof -
  let ?sid = "''redaction_0_k3j9x0q1z''"
  let ?blank = "\<lparr>pg_width = 600, pg_height = 800, pg_ops = []\<rparr> :: unit pdfpage"
  let ?ra = "\<lparr>redactedPdfBase64 = ''JVBERlI='', originalSize = 8, redactedSize = 5,
                     processingTime = 4001\<rparr>"
  let ?rb = "\<lparr>redactedPdfBase64 = ''JVBERlI='', originalSize = 8, redactedSize = 5,
                     processingTime = 2001\<rparr>"
  let ?c2 = "cache_set
        (cache_set example_cache ?sid
           (example_session\<lparr>redactions := [outside_rectangle], redactedAt := Some 4000\<rparr>) 4000)
        ?sid
        (example_session\<lparr>redactions := [wide_rectangle], redactedAt := Some 5000\<rparr>) 5000"
  have h1: "ac_sid example_call_a = ?sid" by (simp add: example_call_a_def)
  have h2: "ac_sid example_call_b = ?sid" by (simp add: example_call_b_def)
  have h3: "example_cache ?sid = Some \<lparr>ce_t = 3600000, ce_v = example_session\<rparr>"
    by (simp add: example_cache_def)
  have s8: "[False, True, True, True, True, False, False, False] =
      [False, True] @ [True, True, True] @ [False, False, False]" by simp
  have h4: "interleave example_pdflib example_call_a example_call_b
     [False, True, True, True, True, False, False, False]
     (Start, Start, example_cache) = (Finished (Inr ?ra), Finished (Inr ?rb), ?c2)"
    unfolding s8 interleave_append example_interleaved by (rule refl)
  note T = concurrent_apply_own_copies [OF h1 h2 h3 h4]
  have l: "PDFDocument_load example_pdflib
      (pdfBuffer (ce_v \<lparr>ce_t = 3600000, ce_v = example_session\<rparr>)) = Inr [?blank]"
    by (simp add: example_session_def example_load)
  have ra: "redactedPdfBase64 ?ra = ''JVBERlI=''" and rb: "redactedPdfBase64 ?rb = ''JVBERlI=''"
    by simp_all
  from T [THEN conjunct1, rule_format, OF refl] obtain doc d bytes col where
    a1: "PDFDocument_load example_pdflib
      (pdfBuffer (ce_v \<lparr>ce_t = 3600000, ce_v = example_session\<rparr>)) = Inr doc"
    and a2: "applyEach example_pdflib doc (ac_reds example_call_a) (ac_opts example_call_a) = Inr d"
    and a3: "pdf_save example_pdflib d = Inr bytes"
    and a4: "redactedPdfBase64 ?ra = toString_base64 bytes"
    and a5: "\<forall>i<length doc.
                  pg_ops (d ! i) =
                    pg_ops (doc ! i) @
                    map (drawn_rectangle col (doc ! i))
                      (filter (\<lambda>r. r_pageNumber r = int i + 1) (ac_reds example_call_a))"
    by (elim exE conjE)
  from a1 l have da: "doc = [?blank]" by simp
  from a5 have a6: "length (pg_ops (d ! 0)) = 1"
    by (simp add: da example_call_a_def wide_rectangle_def)
  from a2 have a2': "applyEach example_pdflib [?blank] [wide_rectangle] \<lparr>color = None\<rparr> = Inr d"
    by (simp add: da example_call_a_def del: applyEach.simps)
  from a4 have a4': "''JVBERlI='' = toString_base64 bytes" by (simp only: ra)
  have ca: "\<exists>d bytes. applyEach example_pdflib [?blank] [wide_rectangle] \<lparr>color = None\<rparr> = Inr d \<and>
      pdf_save example_pdflib d = Inr bytes \<and> ''JVBERlI='' = toString_base64 bytes \<and>
      length (pg_ops (d ! 0)) = 1"
    using a2' a3 a4' a6 by (intro exI [of _ d] exI [of _ bytes] conjI)
  from T [THEN conjunct2, THEN conjunct1, rule_format, OF refl] obtain doc2 d2 bytes2 col2 where
    b1: "PDFDocument_load example_pdflib
      (pdfBuffer (ce_v \<lparr>ce_t = 3600000, ce_v = example_session\<rparr>)) = Inr doc2"
    and b2: "applyEach example_pdflib doc2 (ac_reds example_call_b) (ac_opts example_call_b)
      = Inr d2"
    and b3: "pdf_save example_pdflib d2 = Inr bytes2"
    and b4: "redactedPdfBase64 ?rb = toString_base64 bytes2"
    and b5: "\<forall>i<length doc2.
                  pg_ops (d2 ! i) =
                    pg_ops (doc2 ! i) @
                    map (drawn_rectangle col2 (doc2 ! i))
                      (filter (\<lambda>r. r_pageNumber r = int i + 1) (ac_reds example_call_b))"
    by (elim exE conjE)
  from b1 l have db: "doc2 = [?blank]" by simp
  from b5 have b6: "length (pg_ops (d2 ! 0)) = 1"
    by (simp add: db example_call_b_def outside_rectangle_def)
  from b2 have b2': "applyEach example_pdflib [?blank] [outside_rectangle] \<lparr>color = None\<rparr>
      = Inr d2"
    by (simp add: db example_call_b_def del: applyEach.simps)
  from b4 have b4': "''JVBERlI='' = toString_base64 bytes2" by (simp only: rb)
  have cb: "\<exists>d bytes. applyEach example_pdflib [?blank] [outside_rectangle] \<lparr>color = None\<rparr>
        = Inr d \<and>
      pdf_save example_pdflib d = Inr bytes \<and> ''JVBERlI='' = toString_base64 bytes \<and>
      length (pg_ops (d ! 0)) = 1"
    using b2' b3 b4' b6 by (intro exI [of _ d2] exI [of _ bytes2] conjI)
  from h1 h2 h3 h4 ca cb show ?thesis by (intro conjI)
qed

subsection \<open>Strings that the file service builds\<close>




lemma replicate5: "replicate 5 c = [c, c, c, c, c]"
  by (simp add: numeral_eq_Suc)

lemma blockId_of_1: "blockId_of 1 = ''MDAwMDAx''"
  by (simp add: blockId_of_def padStart_def int_toString_def digit_char_def b64_char_def
      replicate5)

lemma blockId_of_2: "blockId_of 2 = ''MDAwMDAy''"
  by (simp add: blockId_of_def padStart_def int_toString_def digit_char_def b64_char_def
      replicate5)

subsection \<open>Listing\<close>

lemma getMimeType_not_instance: "''getMimeType'' \<notin> set instance_methods"
  by (simp add: instance_methods_def)

lemma this_getMimeType_throws:
  "this_getMimeType P name = Inl (TypeError ''this.getMimeType is not a function'')"
  by (simp add: this_getMimeType_def getMimeType_not_instance)

text \<open>
  C4 asks that a listing in which the metadata of one entry cannot be fetched still
  returns, with a defaulted entry in that place. The code does not: the handler of the
  failed fetch builds the defaulted entry with \<^verbatim>\<open>this.getMimeType\<close>, which instances do
  not have, so the handler itself throws and the whole listing fails. Here the bucket
  lists \<open>a.pdf\<close> and \<open>b.pdf\<close>, and the metadata of \<open>a.pdf\<close> is unavailable.
\<close>

theorem listGCPFiles_metadata_failure_aborts:
  "listGCPFiles example_provider ''docs'' '''' 5 [] =
     (Inl (Error ''Failed to list files: this.getMimeType is not a function''),
      [GCS_getFiles ''docs'' '''' 1000, GCS_getMetadata ''docs'' ''a.pdf''])"
  by (simp add: listGCPFiles_def getGCPStorage_def example_provider_def default_entry_def
        this_getMimeType_throws)

subsection \<open>Multipart upload\<close>

text \<open>
  C1 asks that completing a Provider-A upload writes the uploaded bytes to the provider.
  The code does not: on the platform \<open>gcp\<close>, \<open>uploadPart\<close> returns a token and
  \<open>completeMultipartUpload\<close> returns success without any call to the provider. The log
  of calls is the log they were given, so the bytes \<open>buf\<close> of a part reach no provider.
\<close>

theorem gcp_complete_uploads_nothing:
  "uploadPart P ''gcp'' bucket file uploadId pn buf w =
     (Inr (''gcp_chunk_'' @ int_toString pn @ ''_'' @ uploadId), w) \<and>
   completeMultipartUpload P ''gcp'' bucket file uploadId parts w' =
     (Inr \<lparr>cr_success = True, cr_uploadId = Some uploadId, cr_location = None,
           cr_fileName = None\<rparr>, w')"
  by (simp add: uploadPart_def completeMultipartUpload_def uploadGCPChunk_def
      completeGCPResumableUpload_def)

text \<open>
  C3 as stated fails: completing on Provider C with the parts listed as 2, 1 commits the
  block identifier of part 2 and then that of part 1, not the ascending list.
\<close>

theorem complete_unsorted_counterexample:
  "completeMultipartUpload example_provider ''azure'' ''docs'' ''big.bin'' ''azure_0_x''
     [\<lparr>partNumber = 2, etag = ''MDAwMDAy''\<rparr>, \<lparr>partNumber = 1, etag = ''MDAwMDAx''\<rparr>] [] =
     (Inr \<lparr>cr_success = True, cr_uploadId = None, cr_location = None,
           cr_fileName = Some ''big.bin''\<rparr>,
      [Azure_commitBlockList ''docs'' ''big.bin'' [''MDAwMDAy'', ''MDAwMDAx'']]) \<and>
   blockId_of 2 = ''MDAwMDAy'' \<and> blockId_of 1 = ''MDAwMDAx'' \<and>
   [''MDAwMDAy'', ''MDAwMDAx''] \<noteq> [blockId_of 1, blockId_of 2]"
  by (simp add: completeMultipartUpload_def completeAzureBlockUpload_def getAzureBlob_def
      example_provider_def blockId_of_1 blockId_of_2)

text \<open>
  C3, as the code has it. For Provider C, completion commits the tokens of the caller's
  list in the order of that list, without sorting: the identifier committed at each
  position is the token of the part listed at that position, and when every token is the
  one \<open>uploadPart\<close> gave for its part number, the list committed is the list of the
  block identifiers of the part numbers in the order the caller listed them.
\<close>

theorem complete_keeps_caller_order:
  assumes "azureBlob P"
  shows "snd (completeMultipartUpload P ''azure'' bucket file uploadId parts w)
           = w @ [Azure_commitBlockList bucket file (map etag parts)] \<and>
         length (map etag parts) = length parts \<and>
         (\<forall>i<length parts. map etag parts ! i = etag (parts ! i)) \<and>
         ((\<forall>p\<in>set parts. etag p = blockId_of (partNumber p)) \<longrightarrow>
            snd (completeMultipartUpload P ''azure'' bucket file uploadId parts w)
              = w @ [Azure_commitBlockList bucket file
                       (map blockId_of (map partNumber parts))])"
proof -
  have co: "snd (completeMultipartUpload P ''azure'' bucket file uploadId parts w)
           = w @ [Azure_commitBlockList bucket file (map etag parts)]"
    using assms
    by (simp add: completeMultipartUpload_def completeAzureBlockUpload_def getAzureBlob_def
        Let_def split: sum.splits)
  have "map etag parts = map blockId_of (map partNumber parts)"
    if "\<forall>p\<in>set parts. etag p = blockId_of (partNumber p)"
    using that by (induction parts) simp_all
  with co show ?thesis by simp
qed

text \<open>The theorem on parts 2 and 1, listed in that order with the tokens \<open>uploadPart\<close>
  gave for them.\<close>

theorem complete_keeps_caller_order_witness:
  "azureBlob example_provider \<and>
   etag \<lparr>partNumber = 2, etag = ''MDAwMDAy''\<rparr> = blockId_of 2 \<and>
   etag \<lparr>partNumber = 1, etag = ''MDAwMDAx''\<rparr> = blockId_of 1 \<and>
   snd (completeMultipartUpload example_provider ''azure'' ''docs'' ''big.bin'' ''azure_0_x''
          [\<lparr>partNumber = 2, etag = ''MDAwMDAy''\<rparr>, \<lparr>partNumber = 1, etag = ''MDAwMDAx''\<rparr>] [])
     = [Azure_commitBlockList ''docs'' ''big.bin'' [blockId_of 2, blockId_of 1]] \<and>
   map etag [\<lparr>partNumber = 2, etag = ''MDAwMDAy''\<rparr>, \<lparr>partNumber = 1, etag = ''MDAwMDAx''\<rparr>] ! 0
     = ''MDAwMDAy''"
proof -
  let ?parts = "[\<lparr>partNumber = 2, etag = ''MDAwMDAy''\<rparr>, \<lparr>partNumber = 1, etag = ''MDAwMDAx''\<rparr>]"
  have a: "azureBlob example_provider" by (simp add: example_provider_def)
  note T = complete_keeps_caller_order [OF a, of "''docs''" "''big.bin''" "''azure_0_x''" ?parts "[]"]
  have h: "\<forall>p\<in>set ?parts. etag p = blockId_of (partNumber p)"
    by (simp add: blockId_of_1 blockId_of_2)
  from T [THEN conjunct2, THEN conjunct2, THEN conjunct2, THEN mp, OF h]
  have c: "snd (completeMultipartUpload example_provider ''azure'' ''docs'' ''big.bin''
      ''azure_0_x'' ?parts []) = [Azure_commitBlockList ''docs'' ''big.bin''
        [blockId_of 2, blockId_of 1]]"
    by simp
  from T [THEN conjunct2, THEN conjunct2, THEN conjunct1, rule_format, of 0]
  have n: "map etag ?parts ! 0 = ''MDAwMDAy''" by simp
  from a c n show ?thesis by (simp add: blockId_of_1 blockId_of_2)
qed


lemma replicate6_none: "replicate (6 - 7) c = []"
  by simp





subsection \<open>Coordinate resolution\<close>

text \<open>
  C6. Dual-mode coordinate resolution: a value \<open>v\<close> with \<open>0 \<le> v \<le> 1\<close> resolves to
  \<open>v * d\<close> for the page dimension \<open>d\<close>, and every value above 1 resolves to itself.
  On a 600pt-wide page \<open>x = 0.5\<close> and \<open>width = 0.25\<close> resolve to 300 and 150, and
  \<open>x = 300\<close>, \<open>width = 150\<close> resolve to themselves.
\<close>

theorem convertCoordinate_dual_mode:
  "(0 \<le> v \<and> v \<le> 1 \<longrightarrow> convertCoordinate v d = v * d) \<and>
   (1 < v \<longrightarrow> convertCoordinate v d = v) \<and>
   convertCoordinate 0.5 600 = 300 \<and> convertCoordinate 0.25 600 = 150 \<and>
   convertCoordinate 300 600 = 300 \<and> convertCoordinate 150 600 = 150"
  by (simp add: convertCoordinate_def)

theorem convertCoordinate_dual_mode_witness:
  "(0::real) \<le> 1/2 \<and> (1/2::real) \<le> 1 \<and> convertCoordinate (1/2) 600 = 1/2 * 600 \<and>
   (1::real) < 300 \<and> convertCoordinate 300 600 = 300"
  using convertCoordinate_dual_mode [of "1/2" 600] convertCoordinate_dual_mode [of 300 600]
  by simp

end
